theory Spec2Isabelle
  imports Complex_Main "HOL-Library.Word"
begin

unbundle bit_operations_syntax

section \<open>Values of the Python program\<close>

text \<open>
  The backend is one Flask module, \<^verbatim>\<open>app.py\<close>. Its handler \<^verbatim>\<open>analyze\<close> works on
  parsed JSON, on strings and on byte strings. Text is modelled as \<^typ>\<open>string\<close>, a
  \<^typ>\<open>char\<close> being a code point below 256; bytes are 8-bit words. Python's
  \<^verbatim>\<open>str.upper\<close> maps some of these code points to longer text or beyond 255, so it is
  a parameter of the model.
\<close>

type_synonym bytes = "8 word list"

datatype json =
    JNull
  | JBool bool
  | JInt int
  | JFloat rat
  | JStr string
  | JArr "json list"
  | JObj "(string \<times> json) list"

text \<open>
  \<^const>\<open>JInt\<close> is a JSON number that Python parses to \<^verbatim>\<open>int\<close>, \<^const>\<open>JFloat\<close> one that
  it parses to \<^verbatim>\<open>float\<close> (its value as a rational; the code reads no more of a number
  than whether it is zero).
\<close>

text \<open>An exception: its class name and \<^verbatim>\<open>str(e)\<close>.\<close>

datatype pyexc = PyExc (exc_class: string) (exc_str: string)

text \<open>Python's truth value of a parsed JSON value (\<^verbatim>\<open>if not data\<close>, \<^verbatim>\<open>if image_b64\<close>).\<close>

fun truthy :: "json \<Rightarrow> bool" where
  "truthy JNull = False"
| "truthy (JBool b) = b"
| "truthy (JInt i) = (i \<noteq> 0)"
| "truthy (JFloat f) = (f \<noteq> 0)"
| "truthy (JStr s) = (s \<noteq> [])"
| "truthy (JArr xs) = (xs \<noteq> [])"
| "truthy (JObj kvs) = (kvs \<noteq> [])"

fun type_name :: "json \<Rightarrow> string" where
  "type_name JNull = ''NoneType''"
| "type_name (JBool b) = ''bool''"
| "type_name (JInt i) = ''int''"
| "type_name (JFloat f) = ''float''"
| "type_name (JStr s) = ''str''"
| "type_name (JArr xs) = ''list''"
| "type_name (JObj kvs) = ''dict''"

text \<open>The \<^verbatim>\<open>AttributeError\<close> of \<^verbatim>\<open>v.attr\<close> on a value whose type has no such attribute.\<close>

definition attribute_error :: "json \<Rightarrow> string \<Rightarrow> pyexc" where
  "attribute_error v attr =
     PyExc ''AttributeError''
       ([CHR 0x27] @ type_name v @ [CHR 0x27] @ '' object has no attribute '' @
        [CHR 0x27] @ attr @ [CHR 0x27])"

text \<open>
  \<^verbatim>\<open>d.get(key, default)\<close> on a dict. The pairs of a \<^const>\<open>JObj\<close> are the items of the
  dict in their order; the keys of a dict are distinct, and a lookup takes the first
  pair with the key.
\<close>

definition dict_get :: "(string \<times> json) list \<Rightarrow> string \<Rightarrow> json \<Rightarrow> json" where
  "dict_get d k dflt = (case map_of d k of None \<Rightarrow> dflt | Some v \<Rightarrow> v)"

subsection \<open>Strings\<close>

text \<open>
  The white space of \<^verbatim>\<open>str.strip\<close> and \<^verbatim>\<open>str.isspace\<close> among the code points below
  256: 9 to 13, 28 to 32, 133 and 160.
\<close>

definition is_space :: "char \<Rightarrow> bool" where
  "is_space c =
     (let n = (of_char c :: nat)
      in (9 \<le> n \<and> n \<le> 13) \<or> (28 \<le> n \<and> n \<le> 32) \<or> n = 133 \<or> n = 160)"

text \<open>\<^verbatim>\<open>s.strip()\<close>: leading and trailing white space removed.\<close>

definition strip :: "string \<Rightarrow> string" where
  "strip s = rev (dropWhile is_space (rev (dropWhile is_space s)))"

text \<open>
  The first occurrence of a separator: the text before it and the text after it.
  \<^verbatim>\<open>sep in s\<close> holds when there is one.
\<close>

fun find_sep :: "string \<Rightarrow> string \<Rightarrow> (string \<times> string) option" where
  "find_sep sep [] = (if sep = [] then Some ([], []) else None)"
| "find_sep sep (c # cs) =
     (if take (length sep) (c # cs) = sep then Some ([], drop (length sep) (c # cs))
      else (case find_sep sep cs of
              None \<Rightarrow> None
            | Some (a, b) \<Rightarrow> Some (c # a, b)))"

definition contains :: "string \<Rightarrow> string \<Rightarrow> bool" where
  "contains sep s = (find_sep sep s \<noteq> None)"

text \<open>
  \<^verbatim>\<open>s.split(sep)\<close>: the pieces between the occurrences of the separator, found from
  left to right without overlap. Python raises \<^verbatim>\<open>ValueError\<close> on an empty separator.
\<close>

function split_nonempty :: "string \<Rightarrow> string \<Rightarrow> string list" where
  "split_nonempty sep s =
     (if sep = [] then [s]
      else (case find_sep sep s of
              None \<Rightarrow> [s]
            | Some (a, b) \<Rightarrow> a # split_nonempty sep b))"
  by pat_completeness auto
termination
proof (relation "measure (\<lambda>(sep, s). length s)", goal_cases)
  case 1
  show ?case by simp
next
  case (2 sep s found a b)
  have rest: "length b + length sep \<le> length t" if "find_sep sep t = Some (u, b)" for t u
    using that
  proof (induction t arbitrary: u)
    case Nil
    then show ?case by (simp split: if_splits)
  next
    case (Cons c cs)
    show ?case
    proof (cases "take (length sep) (c # cs) = sep")
      case True
      with Cons.prems have "b = drop (length sep) (c # cs)" by simp
      moreover from True have "length sep \<le> length (c # cs)"
        by (metis length_take min.cobounded1)
      ultimately show ?thesis by simp
    next
      case False
      with Cons.prems obtain u' where "find_sep sep cs = Some (u', b)"
        by (auto split: option.splits)
      from Cons.IH [OF this] show ?thesis by simp
    qed
  qed
  from 2 have "find_sep sep s = Some (a, b)" by simp
  from rest [OF this] 2(1) show ?case by (cases sep) auto
qed

declare split_nonempty.simps [simp del]

definition split :: "string \<Rightarrow> string \<Rightarrow> pyexc + string list" where
  "split s sep =
     (if sep = [] then Inl (PyExc ''ValueError'' ''empty separator'')
      else Inr (split_nonempty sep s))"

text \<open>\<^verbatim>\<open>xs[i]\<close> for a non-negative literal index.\<close>

definition index :: "'a list \<Rightarrow> nat \<Rightarrow> pyexc + 'a" where
  "index xs i =
     (if i < length xs then Inr (xs ! i)
      else Inl (PyExc ''IndexError'' ''list index out of range''))"

text \<open>Decimal digits of a number, as an f-string renders an \<^verbatim>\<open>int\<close>.\<close>

fun show_nat :: "nat \<Rightarrow> string" where
  "show_nat n =
     (if n < 10 then [char_of (48 + n)]
      else show_nat (n div 10) @ [char_of (48 + n mod 10)])"

declare show_nat.simps [simp del]

section \<open>Configuration, requests and the outside world\<close>

text \<open>
  The module's globals, read from the process environment at start: \<^verbatim>\<open>os.getenv\<close>
  gives \<^verbatim>\<open>None\<close> for an unset variable where no default is passed.
\<close>

record config =
  OPENAI_API_KEY :: "string option"
  GEMINI_API_KEY :: "string option"
  BACKEND_SECRET :: string
  DEFAULT_MODEL :: string
  SYSTEM_PROMPT :: string

text \<open>\<^verbatim>\<open>if GEMINI_API_KEY:\<close> holds for a key that is set and not empty.\<close>

fun key_set :: "string option \<Rightarrow> bool" where
  "key_set None = False"
| "key_set (Some k) = (k \<noteq> [])"

text \<open>
  What the handler reads of the Flask request: the header \<^verbatim>\<open>x-backend-secret\<close>
  (\<^verbatim>\<open>None\<close> when absent) and the result of \<^verbatim>\<open>request.get_json(force=True)\<close>, which is
  the parsed body or the exception Flask raises for a body that does not parse.
\<close>

record request =
  x_backend_secret :: "string option"
  get_json :: "pyexc + json"

datatype uploaded_file = UploadedFile string

datatype content = FilePart uploaded_file | TextPart string

datatype gen_config = GenerateContentConfig string

text \<open>
  A response object of the Gemini SDK, as far as the code reads it: the attribute
  \<^verbatim>\<open>response.text\<close> and \<^verbatim>\<open>str(response)\<close>, each of which may raise.
\<close>

record gemini_response =
  text_attr :: "pyexc + string option"
  str_repr :: "pyexc + string"

text \<open>
  A response of \<^verbatim>\<open>requests.post\<close>: status line, URL and the result of \<^verbatim>\<open>resp.json()\<close>.
\<close>

record http_response =
  status_code :: nat
  reason :: string
  url :: string
  json_result :: "pyexc + json"

text \<open>
  Library functions and remote services whose code is outside the repository are
  parameters of the model, each a function of the arguments the code passes.
\<close>

record env =
  str_upper :: "string \<Rightarrow> string"
  b64decode :: "string \<Rightarrow> pyexc + bytes"
  json_dumps :: "json \<Rightarrow> string"
  py_str :: "json \<Rightarrow> string"
  not_iterable_msg :: "json \<Rightarrow> string"
  uuid4 :: string
  import_genai :: "pyexc option"
  new_client :: "string \<Rightarrow> pyexc option"
  files_upload :: "nat \<Rightarrow> bytes \<Rightarrow> pyexc + uploaded_file"
  new_config :: "string \<Rightarrow> pyexc option"
  generate_content :: "string \<Rightarrow> content list \<Rightarrow> gen_config option \<Rightarrow> pyexc + gemini_response"
  requests_post :: "string \<Rightarrow> (string \<times> string) list \<Rightarrow> json \<Rightarrow> nat \<Rightarrow> pyexc + http_response"

text \<open>The calls that leave the process, in the order they are made.\<close>

datatype call =
    FilesUpload nat
  | GenerateContent string "content list" "gen_config option"
  | RequestsPost string "(string \<times> string) list" json nat

text \<open>
  The state a request can change: the temporary files on disk (path and content; a
  path is a number) and the log of outside calls.
\<close>

record world =
  tmp_files :: "(nat \<times> bytes) list"
  calls :: "call list"

text \<open>The calls of the Gemini SDK, as opposed to the HTTP call of the OpenAI path.\<close>

fun is_gemini_call :: "call \<Rightarrow> bool" where
  "is_gemini_call (FilesUpload name) = True"
| "is_gemini_call (GenerateContent model_name contents config) = True"
| "is_gemini_call (RequestsPost address headers body timeout) = False"

definition log_call :: "call \<Rightarrow> world \<Rightarrow> world" where
  "log_call c w = w\<lparr>calls := calls w @ [c]\<rparr>"

definition fresh_path :: "(nat \<times> bytes) list \<Rightarrow> nat" where
  "fresh_path fs = Suc (fold max (map fst fs) 0)"

text \<open>
  \<^verbatim>\<open>tmp = tempfile.NamedTemporaryFile(delete=False, suffix=".png")\<close>, then
  \<^verbatim>\<open>tmp.write(data); tmp.flush(); tmp.close()\<close>: a new file under a name not in use;
  the result is \<^verbatim>\<open>tmp.name\<close>.
\<close>

definition write_tempfile :: "bytes \<Rightarrow> world \<Rightarrow> nat \<times> world" where
  "write_tempfile data w =
     (let name = fresh_path (tmp_files w)
      in (name, w\<lparr>tmp_files := tmp_files w @ [(name, data)]\<rparr>))"

definition file_not_found :: pyexc where
  "file_not_found = PyExc ''FileNotFoundError'' ''[Errno 2] No such file or directory''"

text \<open>\<^verbatim>\<open>with open(path, "rb") as f: f.read()\<close>.\<close>

definition read_file :: "nat \<Rightarrow> world \<Rightarrow> pyexc + bytes" where
  "read_file path w =
     (case map_of (tmp_files w) path of
        None \<Rightarrow> Inl file_not_found
      | Some data \<Rightarrow> Inr data)"

text \<open>\<^verbatim>\<open>os.remove(path)\<close>.\<close>

definition os_remove :: "nat \<Rightarrow> world \<Rightarrow> pyexc option \<times> world" where
  "os_remove path w =
     (if path \<in> fst ` set (tmp_files w)
      then (None, w\<lparr>tmp_files := filter (\<lambda>f. fst f \<noteq> path) (tmp_files w)\<rparr>)
      else (Some file_not_found, w))"

text \<open>What a handler run ends with: an HTTP response (status, JSON body) or an exception
  that leaves the handler.\<close>

datatype outcome = Response nat json | Raised pyexc

section \<open>The helper save_base64_image_to_tempfile\<close>

definition header_sep :: string where
  "header_sep = ''base64,''"

text \<open>
  Lines 27 to 29 on a string: the text that is handed to the decoder.
\<close>

definition image_payload :: "string \<Rightarrow> pyexc + string" where
  "image_payload image_b64 =
     (if contains header_sep image_b64
      then (case split image_b64 header_sep of
              Inl e \<Rightarrow> Inl e
            | Inr parts \<Rightarrow> index parts 1)
      else Inr image_b64)"

text \<open>
  \<^verbatim>\<open>header_sep in image_b64\<close> on a value that is not a string: membership for a list,
  key membership for a dict, \<^verbatim>\<open>TypeError\<close> for the rest.
\<close>

fun sep_in :: "env \<Rightarrow> json \<Rightarrow> pyexc + bool" where
  "sep_in env (JStr s) = Inr (contains header_sep s)"
| "sep_in env (JArr xs) = Inr (JStr header_sep \<in> set xs)"
| "sep_in env (JObj kvs) = Inr (header_sep \<in> fst ` set kvs)"
| "sep_in env v = Inl (PyExc ''TypeError'' (not_iterable_msg env v))"

text \<open>\<^verbatim>\<open>base64.b64decode\<close> on a value that is neither text nor bytes.\<close>

definition b64decode_type_error :: "json \<Rightarrow> pyexc" where
  "b64decode_type_error v =
     PyExc ''TypeError''
       (''argument should be a bytes-like object or ASCII string, not '' @
        [CHR 0x27] @ type_name v @ [CHR 0x27])"

fun save_base64_image_to_tempfile :: "env \<Rightarrow> json \<Rightarrow> world \<Rightarrow> (pyexc + nat) \<times> world" where
  "save_base64_image_to_tempfile env (JStr image_b64) w =
     (case image_payload image_b64 of
        Inl e \<Rightarrow> (Inl e, w)
      | Inr payload \<Rightarrow>
          (case b64decode env payload of
             Inl e \<Rightarrow> (Inl e, w)
           | Inr binary \<Rightarrow>
               (let (name, w') = write_tempfile binary w in (Inr name, w'))))"
| "save_base64_image_to_tempfile env v w =
     (case sep_in env v of
        Inl e \<Rightarrow> (Inl e, w)
      | Inr True \<Rightarrow> (Inl (attribute_error v ''split''), w)
      | Inr False \<Rightarrow> (Inl (b64decode_type_error v), w))"

section \<open>The Gemini path\<close>

text \<open>
  \<^verbatim>\<open>if payload_text and payload_text.strip(): contents.append(payload_text)\<close>: the
  items the text adds to the content list.
\<close>

definition text_contents :: "json \<Rightarrow> pyexc + content list" where
  "text_contents payload_text =
     (if \<not> truthy payload_text then Inr []
      else (case payload_text of
              JStr s \<Rightarrow> Inr (if strip s \<noteq> [] then [TextPart s] else [])
            | _ \<Rightarrow> Inl (attribute_error payload_text ''strip'')))"

text \<open>
  Lines 48 to 57: for image bytes that are not empty, a second temporary file is
  written and uploaded by name. The \<^verbatim>\<open>finally\<close> clause is \<^verbatim>\<open>pass\<close>: nothing removes
  the file, whether the upload returns or raises.
\<close>

definition upload_image :: "env \<Rightarrow> bytes option \<Rightarrow> world \<Rightarrow> (pyexc + content list) \<times> world" where
  "upload_image env image_bytes w =
     (case image_bytes of
        None \<Rightarrow> (Inr [], w)
      | Some data \<Rightarrow>
          if data = [] then (Inr [], w)
          else (let (name, w1) = write_tempfile data w;
                    w2 = log_call (FilesUpload name) w1
                in (case files_upload env name data of
                      Inl e \<Rightarrow> (Inl e, w2)
                    | Inr uploaded \<Rightarrow> (Inr [FilePart uploaded], w2))))"

text \<open>Lines 69 to 76: the reply text read off the response.\<close>

definition gemini_text :: "gemini_response \<Rightarrow> json" where
  "gemini_text response =
     (case text_attr response of
        Inr None \<Rightarrow> JNull
      | Inr (Some t) \<Rightarrow> JStr t
      | Inl _ \<Rightarrow>
          (case str_repr response of
             Inr s \<Rightarrow> JStr s
           | Inl _ \<Rightarrow> JStr ''No textual response from Gemini.''))"

text \<open>A value of a provider's result dict: JSON data or the SDK's response object.\<close>

datatype pyobj = PJson json | PResponse gemini_response

type_synonym ai_resp = "(string \<times> pyobj) list"

definition call_gemini_api ::
  "config \<Rightarrow> env \<Rightarrow> json \<Rightarrow> bytes option \<Rightarrow> json \<Rightarrow> world \<Rightarrow> (pyexc + ai_resp) \<times> world" where
  "call_gemini_api cfg env payload_text image_bytes mode w =
     (case GEMINI_API_KEY cfg of
        None \<Rightarrow> (Inl (PyExc ''RuntimeError'' ''GEMINI_API_KEY not set on server.''), w)
      | Some key \<Rightarrow>
      if key = [] then (Inl (PyExc ''RuntimeError'' ''GEMINI_API_KEY not set on server.''), w)
      else (case import_genai env of
        Some e \<Rightarrow>
          (Inl (PyExc ''RuntimeError''
             ''google-genai SDK not installed. pip install google-genai''), w)
      | None \<Rightarrow>
      (case new_client env key of
        Some e \<Rightarrow> (Inl e, w)
      | None \<Rightarrow>
      (case upload_image env image_bytes w of
        (Inl e, w1) \<Rightarrow> (Inl e, w1)
      | (Inr files, w1) \<Rightarrow>
      (case text_contents payload_text of
        Inl e \<Rightarrow> (Inl e, w1)
      | Inr texts \<Rightarrow>
          (let contents = files @ texts;
               config = (case new_config env (SYSTEM_PROMPT cfg) of
                           Some e \<Rightarrow> None
                         | None \<Rightarrow> Some (GenerateContentConfig (SYSTEM_PROMPT cfg)));
               model_name = (if DEFAULT_MODEL cfg \<noteq> [] then DEFAULT_MODEL cfg
                             else ''gemini-2.5-pro'');
               w2 = log_call (GenerateContent model_name contents config) w1
           in (case generate_content env model_name contents config of
                 Inl e \<Rightarrow> (Inl e, w2)
               | Inr response \<Rightarrow>
                   (Inr [(''reply_text'', PJson (gemini_text response)),
                         (''raw'', PResponse response),
                         (''reply_type'', PJson (JStr ''analysis''))], w2))))))))"

section \<open>The OpenAI path\<close>

text \<open>
  \<^verbatim>\<open>resp.raise_for_status()\<close> of the requests library raises \<^verbatim>\<open>HTTPError\<close> for a
  status from 400 to 599 and returns for every other status.
\<close>

definition raise_for_status :: "http_response \<Rightarrow> pyexc option" where
  "raise_for_status resp =
     (if 400 \<le> status_code resp \<and> status_code resp < 500
      then Some (PyExc ''HTTPError''
             (show_nat (status_code resp) @ '' Client Error: '' @ reason resp @
              '' for url: '' @ url resp))
      else if 500 \<le> status_code resp \<and> status_code resp < 600
      then Some (PyExc ''HTTPError''
             (show_nat (status_code resp) @ '' Server Error: '' @ reason resp @
              '' for url: '' @ url resp))
      else None)"

text \<open>
  Subscripts on parsed JSON, \<^verbatim>\<open>None\<close> where Python raises (\<^verbatim>\<open>KeyError\<close>,
  \<^verbatim>\<open>IndexError\<close>, \<^verbatim>\<open>TypeError\<close>): the caller's \<^verbatim>\<open>except Exception\<close> drops the
  exception. The keys of a parsed JSON object are strings, so \<^verbatim>\<open>d[0]\<close> on a dict is a
  \<^verbatim>\<open>KeyError\<close>.
\<close>

fun getitem_key :: "json \<Rightarrow> string \<Rightarrow> json option" where
  "getitem_key (JObj kvs) k = map_of kvs k"
| "getitem_key v k = None"

fun getitem_0 :: "json \<Rightarrow> json option" where
  "getitem_0 (JArr (x # xs)) = Some x"
| "getitem_0 (JStr (c # cs)) = Some (JStr [c])"
| "getitem_0 v = None"

text \<open>\<^verbatim>\<open>j["choices"][0]["message"]["content"]\<close>.\<close>

definition message_content :: "json \<Rightarrow> json option" where
  "message_content j =
     (case getitem_key j ''choices'' of
        None \<Rightarrow> None
      | Some choices \<Rightarrow>
          (case getitem_0 choices of
             None \<Rightarrow> None
           | Some choice \<Rightarrow>
               (case getitem_key choice ''message'' of
                  None \<Rightarrow> None
                | Some message \<Rightarrow> getitem_key message ''content'')))"

definition openai_body :: "string \<Rightarrow> json \<Rightarrow> json" where
  "openai_body system_prompt user_text =
     JObj [(''model'', JStr ''gpt-4o''),
           (''messages'',
              JArr [JObj [(''role'', JStr ''system''), (''content'', JStr system_prompt)],
                    JObj [(''role'', JStr ''user''), (''content'', user_text)]]),
           (''temperature'', JFloat (2 / 10)),
           (''max_tokens'', JInt 800)]"

definition call_openai_chat ::
  "config \<Rightarrow> env \<Rightarrow> string \<Rightarrow> json \<Rightarrow> world \<Rightarrow> (pyexc + ai_resp) \<times> world" where
  "call_openai_chat cfg env system_prompt user_text w =
     (case OPENAI_API_KEY cfg of
        None \<Rightarrow> (Inl (PyExc ''RuntimeError'' ''OPENAI_API_KEY not set on server.''), w)
      | Some key \<Rightarrow>
      if key = [] then (Inl (PyExc ''RuntimeError'' ''OPENAI_API_KEY not set on server.''), w)
      else
        (let url = ''https://api.openai.com/v1/chat/completions'';
             headers = [(''Authorization'', ''Bearer '' @ key),
                        (''Content-Type'', ''application/json'')];
             body = openai_body system_prompt user_text;
             w1 = log_call (RequestsPost url headers body 60) w
         in (case requests_post env url headers body 60 of
               Inl e \<Rightarrow> (Inl e, w1)
             | Inr resp \<Rightarrow>
                 (case raise_for_status resp of
                    Some e \<Rightarrow> (Inl e, w1)
                  | None \<Rightarrow>
                      (case json_result resp of
                         Inl e \<Rightarrow> (Inl e, w1)
                       | Inr j \<Rightarrow>
                           (let text = (case message_content j of
                                          Some c \<Rightarrow> c
                                        | None \<Rightarrow> JStr (json_dumps env j))
                            in (Inr [(''reply_text'', PJson text),
                                     (''raw'', PJson j),
                                     (''reply_type'', PJson (JStr ''analysis''))], w1)))))))"

section \<open>The handler of POST /analyze\<close>

text \<open>\<^verbatim>\<open>jsonify\<close> of an error envelope, with and without the \<^verbatim>\<open>error\<close> field.\<close>

definition error_envelope :: "string \<Rightarrow> json" where
  "error_envelope msg = JObj [(''status'', JStr ''error''), (''message'', JStr msg)]"

definition error_envelope_exc :: "string \<Rightarrow> pyexc \<Rightarrow> json" where
  "error_envelope_exc msg e =
     JObj [(''status'', JStr ''error''), (''message'', JStr msg),
           (''error'', JStr (exc_str e))]"

text \<open>Lines 110 to 112: the condition under which the gate answers 401.\<close>

definition unauthorized :: "config \<Rightarrow> request \<Rightarrow> bool" where
  "unauthorized cfg req =
     (let client_secret = x_backend_secret req
      in BACKEND_SECRET cfg \<noteq> ''devsecret'' \<and> client_secret \<noteq> Some (BACKEND_SECRET cfg))"

text \<open>How an f-string renders a JSON value: a string as it is, the rest by \<^verbatim>\<open>str\<close>.\<close>

definition format_value :: "env \<Rightarrow> json \<Rightarrow> string" where
  "format_value env v = (case v of JStr s \<Rightarrow> s | _ \<Rightarrow> py_str env v)"

text \<open>
  Lines 120 to 123. \<^verbatim>\<open>mode != "auto"\<close> holds for every value but the string
  \<^verbatim>\<open>"auto"\<close>; \<^verbatim>\<open>mode.upper()\<close> exists for strings only.
\<close>

definition build_user_text :: "env \<Rightarrow> json \<Rightarrow> json \<Rightarrow> pyexc + json" where
  "build_user_text env mode text =
     (if mode \<noteq> JStr ''auto''
      then (case mode of
              JStr m \<Rightarrow>
                Inr (JStr (''[MODE: '' @ str_upper env m @ '']'' @ [CHR 0x0A, CHR 0x0A] @
                           format_value env text))
            | _ \<Rightarrow> Inl (attribute_error mode ''upper''))
      else Inr text)"

text \<open>What lines 113 to 132 hand to the dispatcher.\<close>

record normalized =
  n_mode :: json
  n_user_text :: json
  n_temp_image_path :: "nat option"
  n_image_bytes :: "bytes option"

text \<open>
  Lines 128 to 130, the body of the \<^verbatim>\<open>try\<close>: the image is decoded into a temporary
  file, which is read back. The result is the file's path and the bytes.
\<close>

definition read_image :: "env \<Rightarrow> json \<Rightarrow> world \<Rightarrow> (pyexc + nat \<times> bytes) \<times> world" where
  "read_image env image_b64 w =
     (case save_base64_image_to_tempfile env image_b64 w of
        (Inl e, w1) \<Rightarrow> (Inl e, w1)
      | (Inr temp_image_path, w1) \<Rightarrow>
          (case read_file temp_image_path w1 of
             Inl e \<Rightarrow> (Inl e, w1)
           | Inr image_bytes \<Rightarrow> (Inr (temp_image_path, image_bytes), w1)))"

text \<open>
  Lines 113 to 132: the body is parsed and checked, the fields are read, the text is
  built and the image is decoded. The result is either the handler's early exit or the
  values for the dispatcher.
\<close>

definition normalize :: "env \<Rightarrow> request \<Rightarrow> world \<Rightarrow> (outcome + normalized) \<times> world" where
  "normalize env req w =
     (case get_json req of
        Inl e \<Rightarrow> (Inl (Raised e), w)
      | Inr data \<Rightarrow>
      if \<not> truthy data
      then (Inl (Response 400 (error_envelope ''invalid json payload'')), w)
      else (case data of
        JObj d \<Rightarrow>
          (let user_id = dict_get d ''user_id'' (JStr (uuid4 env));
               mode = dict_get d ''mode'' (JStr ''auto'');
               text = dict_get d ''message_text'' (JStr []);
               image_b64 = dict_get d ''image_base64'' JNull
           in (case build_user_text env mode text of
                 Inl e \<Rightarrow> (Inl (Raised e), w)
               | Inr user_text \<Rightarrow>
                   if truthy image_b64
                   then (case read_image env image_b64 w of
                           (Inl e, w1) \<Rightarrow>
                             (Inl (Response 400 (error_envelope_exc ''bad image base64'' e)), w1)
                         | (Inr (temp_image_path, image_bytes), w1) \<Rightarrow>
                             (Inr \<lparr>n_mode = mode, n_user_text = user_text,
                                   n_temp_image_path = Some temp_image_path,
                                   n_image_bytes = Some image_bytes\<rparr>, w1))
                   else (Inr \<lparr>n_mode = mode, n_user_text = user_text,
                              n_temp_image_path = None, n_image_bytes = None\<rparr>, w)))
      | _ \<Rightarrow> (Inl (Raised (attribute_error data ''get'')), w)))"

text \<open>
  Lines 145 to 149, the \<^verbatim>\<open>finally\<close> clause: the file of the normalizer is removed,
  and a failure of the removal is dropped.
\<close>

definition cleanup :: "nat option \<Rightarrow> world \<Rightarrow> world" where
  "cleanup temp_image_path w =
     (case temp_image_path of
        None \<Rightarrow> w
      | Some path \<Rightarrow> snd (os_remove path w))"

text \<open>
  \<^verbatim>\<open>jsonify\<close> of a value of the result dict (\<^verbatim>\<open>None\<close> for a missing key): an SDK
  object is not serialisable.
\<close>

fun to_json :: "pyobj option \<Rightarrow> pyexc + json" where
  "to_json None = Inr JNull"
| "to_json (Some (PJson j)) = Inr j"
| "to_json (Some (PResponse r)) =
     Inl (PyExc ''TypeError''
            ''Object of type GenerateContentResponse is not JSON serializable'')"

text \<open>Lines 150 to 155: the reply envelope, with status 200.\<close>

definition ok_envelope :: "json \<Rightarrow> json \<Rightarrow> string \<Rightarrow> json" where
  "ok_envelope reply_text reply_type used =
     JObj [(''status'', JStr ''ok''),
           (''reply_text'', reply_text),
           (''reply_type'', reply_type),
           (''meta'', JObj [(''used_provider'', JStr used)])]"

definition reply :: "ai_resp \<Rightarrow> string \<Rightarrow> outcome" where
  "reply ai_resp used =
     (case to_json (map_of ai_resp ''reply_text'') of
        Inl e \<Rightarrow> Raised e
      | Inr reply_text \<Rightarrow>
          (case to_json (Some (case map_of ai_resp ''reply_type'' of
                                 None \<Rightarrow> PJson (JStr ''analysis'')
                               | Some v \<Rightarrow> v)) of
             Inl e \<Rightarrow> Raised e
           | Inr reply_type \<Rightarrow> Response 200 (ok_envelope reply_text reply_type used)))"

text \<open>
  Lines 133 to 143, the \<^verbatim>\<open>try\<close> block: the provider is chosen and called. The result
  is the early response of the block or the provider's result with its name.
\<close>

definition select_provider ::
  "config \<Rightarrow> env \<Rightarrow> normalized \<Rightarrow> world \<Rightarrow> (outcome + ai_resp \<times> string) \<times> world" where
  "select_provider cfg env n w =
     (if key_set (GEMINI_API_KEY cfg)
      then (case call_gemini_api cfg env (n_user_text n) (n_image_bytes n) (n_mode n) w of
              (Inl e, w1) \<Rightarrow>
                (Inl (Response 500 (error_envelope_exc ''AI provider error'' e)), w1)
            | (Inr ai_resp, w1) \<Rightarrow> (Inr (ai_resp, ''gemini''), w1))
      else if key_set (OPENAI_API_KEY cfg)
      then (case call_openai_chat cfg env (SYSTEM_PROMPT cfg) (n_user_text n) w of
              (Inl e, w1) \<Rightarrow>
                (Inl (Response 500 (error_envelope_exc ''AI provider error'' e)), w1)
            | (Inr ai_resp, w1) \<Rightarrow> (Inr (ai_resp, ''openai''), w1))
      else (Inl (Response 500 (error_envelope
                  ''No AI provider configured. Set GEMINI_API_KEY or OPENAI_API_KEY on the server.'')),
            w))"

text \<open>Lines 133 to 155: \<^verbatim>\<open>try\<close>, \<^verbatim>\<open>finally\<close>, and the reply.\<close>

definition dispatch :: "config \<Rightarrow> env \<Rightarrow> normalized \<Rightarrow> world \<Rightarrow> outcome \<times> world" where
  "dispatch cfg env n w =
     (let (r, w1) = select_provider cfg env n w;
          w2 = cleanup (n_temp_image_path n) w1
      in (case r of
            Inl early \<Rightarrow> (early, w2)
          | Inr (ai_resp, used) \<Rightarrow> (reply ai_resp used, w2)))"

definition analyze :: "config \<Rightarrow> env \<Rightarrow> request \<Rightarrow> world \<Rightarrow> outcome \<times> world" where
  "analyze cfg env req w =
     (if unauthorized cfg req
      then (Response 401 (error_envelope ''unauthorized''), w)
      else (case normalize env req w of
              (Inl early, w1) \<Rightarrow> (early, w1)
            | (Inr n, w1) \<Rightarrow> dispatch cfg env n w1))"

section \<open>A concrete decoder and a concrete environment\<close>

text \<open>
  The standard library's \<^verbatim>\<open>base64.b64decode(s)\<close> with its default
  \<^verbatim>\<open>validate=False\<close>, after CPython's \<^verbatim>\<open>binascii.a2b_base64\<close>: characters outside
  the alphabet are skipped, a pad that completes a quad ends the input, and leftover
  characters of a quad are an error. It instantiates the decoder of \<^typ>\<open>env\<close> where
  a statement is evaluated on concrete input.
\<close>

definition b64_value :: "char \<Rightarrow> 8 word option" where
  "b64_value c =
     (let n = (of_char c :: nat)
      in if 65 \<le> n \<and> n \<le> 90 then Some (of_nat (n - 65))
         else if 97 \<le> n \<and> n \<le> 122 then Some (of_nat (n - 71))
         else if 48 \<le> n \<and> n \<le> 57 then Some (of_nat (n + 4))
         else if n = 43 then Some 62
         else if n = 47 then Some 63
         else None)"

fun a2b_base64 :: "nat \<Rightarrow> 8 word \<Rightarrow> nat \<Rightarrow> bytes \<Rightarrow> string \<Rightarrow> pyexc + bytes" where
  "a2b_base64 quad_pos leftchar pads out [] =
     (if quad_pos = 0 then Inr (rev out)
      else if quad_pos = 1
      then Inl (PyExc ''Error''
             (''Invalid base64-encoded string: number of data characters ('' @
              show_nat (length out div 3 * 4 + 1) @
              '') cannot be 1 more than a multiple of 4''))
      else Inl (PyExc ''Error'' ''Incorrect padding''))"
| "a2b_base64 quad_pos leftchar pads out (c # cs) =
     (if c = CHR ''=''
      then (if 2 \<le> quad_pos \<and> 4 \<le> quad_pos + (pads + 1) then Inr (rev out)
            else a2b_base64 quad_pos leftchar (if 2 \<le> quad_pos then pads + 1 else pads) out cs)
      else (case b64_value c of
              None \<Rightarrow> a2b_base64 quad_pos leftchar pads out cs
            | Some v \<Rightarrow>
                if quad_pos = 0 then a2b_base64 1 v 0 out cs
                else if quad_pos = 1
                then a2b_base64 2 (v AND 0x0f) 0 ((push_bit 2 leftchar OR drop_bit 4 v) # out) cs
                else if quad_pos = 2
                then a2b_base64 3 (v AND 0x03) 0 ((push_bit 4 leftchar OR drop_bit 2 v) # out) cs
                else a2b_base64 0 0 0 ((push_bit 6 leftchar OR v) # out) cs))"

definition py_b64decode :: "string \<Rightarrow> pyexc + bytes" where
  "py_b64decode s =
     (if list_ex (\<lambda>c. 128 \<le> (of_char c :: nat)) s
      then Inl (PyExc ''ValueError'' ''string argument should contain only ASCII characters'')
      else a2b_base64 0 0 0 [] s)"

text \<open>
  An environment for concrete runs: upper case on ASCII, the decoder above, an SDK that
  is installed, an
  upload that returns a reference, a model that answers \<^verbatim>\<open>hello\<close>, and a chat endpoint
  that answers status 200 with a well-formed completion.
\<close>

text \<open>Upper case on ASCII letters, where \<^verbatim>\<open>str.upper\<close> maps a to z onto A to Z.\<close>

definition ascii_upper_char :: "char \<Rightarrow> char" where
  "ascii_upper_char c =
     (if 97 \<le> (of_char c :: nat) \<and> (of_char c :: nat) \<le> 122
      then char_of ((of_char c :: nat) - 32) else c)"

definition ascii_upper :: "string \<Rightarrow> string" where
  "ascii_upper s = map ascii_upper_char s"

definition example_completion :: json where
  "example_completion =
     JObj [(''choices'',
             JArr [JObj [(''message'',
                           JObj [(''role'', JStr ''assistant''),
                                 (''content'', JStr ''hello'')])]])]"

definition example_env :: env where
  "example_env =
     \<lparr>str_upper = ascii_upper,
      b64decode = py_b64decode,
      json_dumps = (\<lambda>j. ''{}''),
      py_str = (\<lambda>j. ''None''),
      not_iterable_msg = (\<lambda>v. ''argument of type '' @ [CHR 0x27] @ type_name v @ [CHR 0x27] @
                                 '' is not iterable''),
      uuid4 = ''123e4567-e89b-42d3-a456-426614174000'',
      import_genai = None,
      new_client = (\<lambda>key. None),
      files_upload = (\<lambda>name data. Inr (UploadedFile ''files/abc'')),
      new_config = (\<lambda>prompt. None),
      generate_content = (\<lambda>model contents config.
         Inr \<lparr>text_attr = Inr (Some ''hello''), str_repr = Inr ''response''\<rparr>),
      requests_post = (\<lambda>url headers body timeout.
         Inr \<lparr>status_code = 200, reason = ''OK'', url = url,
              json_result = Inr example_completion\<rparr>)\<rparr>"

definition example_config :: config where
  "example_config =
     \<lparr>OPENAI_API_KEY = None, GEMINI_API_KEY = None, BACKEND_SECRET = ''devsecret'',
      DEFAULT_MODEL = ''gemini-2.5-pro'', SYSTEM_PROMPT = ''You are a tutor.''\<rparr>"

definition empty_world :: world where
  "empty_world = \<lparr>tmp_files = [], calls = []\<rparr>"

definition post :: "string option \<Rightarrow> json \<Rightarrow> request" where
  "post secret body = \<lparr>x_backend_secret = secret, get_json = Inr body\<rparr>"

text \<open>Configurations and a request body for concrete runs.\<close>

definition openai_config :: config where
  "openai_config = example_config\<lparr>OPENAI_API_KEY := Some ''sk-test''\<rparr>"

definition gemini_config :: config where
  "gemini_config = example_config\<lparr>GEMINI_API_KEY := Some ''g-test''\<rparr>"

definition secret_config :: config where
  "secret_config = openai_config\<lparr>BACKEND_SECRET := ''s3cret''\<rparr>"

definition hello_body :: json where
  "hello_body = JObj [(''message_text'', JStr ''hi'')]"

definition summary_request :: request where
  "summary_request =
     post None (JObj [(''message_text'', JStr ''Summarize the Niger Delta conflict''),
                      (''mode'', JStr ''summary'')])"

definition both_config :: config where
  "both_config = gemini_config\<lparr>OPENAI_API_KEY := Some ''sk-test''\<rparr>"

text \<open>A chat endpoint that answers with the given status and the example completion.\<close>

definition status_env :: "nat \<Rightarrow> string \<Rightarrow> env" where
  "status_env code phrase =
     example_env\<lparr>requests_post := (\<lambda>url headers body timeout.
        Inr \<lparr>status_code = code, reason = phrase, url = url,
             json_result = Inr example_completion\<rparr>)\<rparr>"

section \<open>Shapes of results\<close>

text \<open>A provider that returns hands back the three keys, with the fixed reply type.\<close>

lemma call_gemini_api_result:
  "call_gemini_api cfg env t img m w = (Inr ai, w') \<Longrightarrow>
   \<exists>txt r. ai = [(''reply_text'', PJson txt), (''raw'', PResponse r),
                 (''reply_type'', PJson (JStr ''analysis''))]"
  by (auto simp: call_gemini_api_def Let_def
      split: option.splits if_splits sum.splits prod.splits)

lemma call_openai_chat_result:
  "call_openai_chat cfg env p t w = (Inr ai, w') \<Longrightarrow>
   \<exists>txt j. ai = [(''reply_text'', PJson txt), (''raw'', PJson j),
                 (''reply_type'', PJson (JStr ''analysis''))]"
  by (auto simp: call_openai_chat_def Let_def
      split: option.splits if_splits sum.splits prod.splits)

lemma reply_of_result:
  "reply [(''reply_text'', PJson txt), (''raw'', r), (''reply_type'', PJson (JStr ''analysis''))] used
   = Response 200 (ok_envelope txt (JStr ''analysis'') used)"
  by (simp add: reply_def)

lemma select_provider_early:
  "select_provider cfg env n w = (Inl out, w') \<Longrightarrow> \<exists>b. out = Response 500 b"
  by (auto simp: select_provider_def split: if_splits prod.splits sum.splits)

lemma select_provider_result:
  "select_provider cfg env n w = (Inr (ai, used), w') \<Longrightarrow>
   \<exists>txt. reply ai used = Response 200 (ok_envelope txt (JStr ''analysis'') used)"
  by (auto simp: select_provider_def reply_of_result split: if_splits prod.splits sum.splits
      dest!: call_gemini_api_result call_openai_chat_result)

text \<open>The dispatcher ends in a 500 or in the reply envelope; it never raises.\<close>

lemma dispatch_outcome:
  "(\<exists>b. fst (dispatch cfg env n w) = Response 500 b) \<or>
   (\<exists>txt used. fst (dispatch cfg env n w) =
      Response 200 (ok_envelope txt (JStr ''analysis'') used))"
proof (cases "select_provider cfg env n w")
  case (Pair r w1)
  show ?thesis
  proof (cases r)
    case (Inl out)
    with Pair select_provider_early [of cfg env n w out w1] show ?thesis
      by (auto simp: dispatch_def)
  next
    case (Inr p)
    obtain ai used where "p = (ai, used)" by (cases p)
    with Pair Inr select_provider_result [of cfg env n w ai used w1] show ?thesis
      by (auto simp: dispatch_def)
  qed
qed

lemma normalize_early:
  "normalize env req w = (Inl out, w') \<Longrightarrow>
   (\<exists>e. out = Raised e) \<or> (\<exists>b. out = Response 400 b)"
  by (auto simp: normalize_def Let_def split: sum.splits if_splits json.splits prod.splits)

text \<open>Past the gate, the handler answers 400, 500 or 200, or raises.\<close>

lemma analyze_past_gate:
  assumes "\<not> unauthorized cfg req"
  shows "(\<exists>e. fst (analyze cfg env req w) = Raised e) \<or>
         (\<exists>b. fst (analyze cfg env req w) = Response 400 b) \<or>
         (\<exists>b. fst (analyze cfg env req w) = Response 500 b) \<or>
         (\<exists>txt used. fst (analyze cfg env req w) =
            Response 200 (ok_envelope txt (JStr ''analysis'') used))"
proof (cases "normalize env req w")
  case (Pair r w1)
  show ?thesis
  proof (cases r)
    case (Inl out)
    with Pair assms normalize_early [of env req w out w1] show ?thesis
      by (auto simp: analyze_def)
  next
    case (Inr n)
    with Pair assms dispatch_outcome [of cfg env n w1] show ?thesis
      by (auto simp: analyze_def)
  qed
qed

section \<open>The request gate\<close>

text \<open>
  Claim C2, as amended. The gate answers 401 with the error envelope exactly when the
  configured secret differs from the default \<^verbatim>\<open>devsecret\<close> and the header is not
  equal to it; an empty configured secret is a secret like any other. In every other
  case the handler goes on with the normalizer and its answer is not a 401.
\<close>

theorem C2_gate:
  "(BACKEND_SECRET cfg \<noteq> ''devsecret'' \<and> x_backend_secret req \<noteq> Some (BACKEND_SECRET cfg) \<longrightarrow>
      analyze cfg env req w = (Response 401 (error_envelope ''unauthorized''), w)) \<and>
   (BACKEND_SECRET cfg = ''devsecret'' \<or> x_backend_secret req = Some (BACKEND_SECRET cfg) \<longrightarrow>
      (\<forall>body. fst (analyze cfg env req w) \<noteq> Response 401 body) \<and>
      analyze cfg env req w =
        (case normalize env req w of
           (Inl early, w1) \<Rightarrow> (early, w1)
         | (Inr n, w1) \<Rightarrow> dispatch cfg env n w1))"
proof (intro conjI impI)
  assume "BACKEND_SECRET cfg \<noteq> ''devsecret'' \<and> x_backend_secret req \<noteq> Some (BACKEND_SECRET cfg)"
  then show "analyze cfg env req w = (Response 401 (error_envelope ''unauthorized''), w)"
    by (simp add: analyze_def unauthorized_def)
next
  assume "BACKEND_SECRET cfg = ''devsecret'' \<or> x_backend_secret req = Some (BACKEND_SECRET cfg)"
  then have open_gate: "\<not> unauthorized cfg req"
    by (auto simp: unauthorized_def)
  from analyze_past_gate [OF open_gate, of env w]
  show "\<forall>body. fst (analyze cfg env req w) \<noteq> Response 401 body"
    by auto
  from open_gate
  show "analyze cfg env req w =
        (case normalize env req w of
           (Inl early, w1) \<Rightarrow> (early, w1)
         | (Inr n, w1) \<Rightarrow> dispatch cfg env n w1)"
    by (simp add: analyze_def)
qed

text \<open>A wrong header is refused, the right header is not.\<close>

theorem C2_gate_witness:
  "analyze secret_config example_env (post (Some ''wrong'') hello_body) empty_world =
     (Response 401 (error_envelope ''unauthorized''), empty_world) \<and>
   (\<forall>body. fst (analyze secret_config example_env (post (Some ''s3cret'') hello_body) empty_world)
      \<noteq> Response 401 body)"
proof -
  have refused:
    "analyze secret_config example_env (post (Some ''wrong'') hello_body) empty_world =
       (Response 401 (error_envelope ''unauthorized''), empty_world)"
    using C2_gate [of secret_config "post (Some ''wrong'') hello_body" example_env empty_world]
    by (simp add: secret_config_def openai_config_def example_config_def post_def)
  have accepted:
    "\<forall>body. fst (analyze secret_config example_env (post (Some ''s3cret'') hello_body) empty_world)
       \<noteq> Response 401 body"
  proof -
    have "BACKEND_SECRET secret_config = ''devsecret'' \<or>
          x_backend_secret (post (Some ''s3cret'') hello_body) = Some (BACKEND_SECRET secret_config)"
      by (simp add: secret_config_def post_def)
    with C2_gate [of secret_config "post (Some ''s3cret'') hello_body" example_env empty_world]
    show ?thesis by blast
  qed
  from refused accepted show ?thesis by (rule conjI)
qed

text \<open>
  The claim as written lets every caller pass when the configured secret is empty.
  With \<^verbatim>\<open>BACKEND_SECRET\<close> set to the empty string and no header, the handler answers 401.
\<close>

theorem C2_empty_secret_counterexample:
  "BACKEND_SECRET (example_config\<lparr>BACKEND_SECRET := []\<rparr>) = [] \<and>
   analyze (example_config\<lparr>BACKEND_SECRET := []\<rparr>) example_env (post None hello_body) empty_world =
     (Response 401 (error_envelope ''unauthorized''), empty_world)"
  by (simp add: analyze_def unauthorized_def example_config_def post_def)

section \<open>The reply type\<close>

text \<open>
  Claim C10. Every response of the handler with status 200 carries
  \<^verbatim>\<open>reply_type\<close> \<^verbatim>\<open>"analysis"\<close>, whatever the configuration, the request and the answers
  of the providers are.
\<close>

theorem C10_reply_type_analysis:
  assumes "fst (analyze cfg env req w) = Response 200 body"
  shows "getitem_key body ''reply_type'' = Some (JStr ''analysis'')"
proof (cases "unauthorized cfg req")
  case True
  with assms show ?thesis by (simp add: analyze_def)
next
  case False
  from analyze_past_gate [OF False, of env w] assms
  obtain rt used where "body = ok_envelope rt (JStr ''analysis'') used"
    by auto
  then show ?thesis by (simp add: ok_envelope_def)
qed

theorem C10_reply_type_analysis_witness:
  "fst (analyze openai_config example_env (post None hello_body) empty_world) =
     Response 200 (ok_envelope (JStr ''hello'') (JStr ''analysis'') ''openai'') \<and>
   getitem_key (ok_envelope (JStr ''hello'') (JStr ''analysis'') ''openai'') ''reply_type'' =
     Some (JStr ''analysis'')"
proof -
  have ok: "fst (analyze openai_config example_env (post None hello_body) empty_world) =
     Response 200 (ok_envelope (JStr ''hello'') (JStr ''analysis'') ''openai'')"
    by code_simp
  from ok C10_reply_type_analysis [OF ok] show ?thesis by (rule conjI)
qed

section \<open>Temporary files\<close>

lemma fold_max_upper: "x \<in> set xs \<Longrightarrow> x \<le> fold max xs (a::nat)"
proof (induction xs arbitrary: a)
  case Nil
  then show ?case by simp
next
  case (Cons y ys)
  have mono: "b \<le> fold max ys b" for b :: nat
    by (induction ys arbitrary: b) (auto intro: order_trans [OF max.cobounded2])
  show ?case
  proof (cases "x = y")
    case True
    have "y \<le> max y a" by simp
    also have "\<dots> \<le> fold max ys (max y a)" by (rule mono)
    finally show ?thesis using True by simp
  next
    case False
    with Cons.prems have "x \<in> set ys" by simp
    then show ?thesis using Cons.IH by simp
  qed
qed

lemma fresh_path_fresh: "fresh_path fs \<notin> fst ` set fs"
proof
  assume "fresh_path fs \<in> fst ` set fs"
  then have "fresh_path fs \<in> set (map fst fs)" by simp
  then have "fresh_path fs \<le> fold max (map fst fs) 0" by (rule fold_max_upper)
  then show False by (simp add: fresh_path_def)
qed

lemma map_of_append_fresh:
  "p \<notin> fst ` set fs \<Longrightarrow> map_of (fs @ [(p, d)]) p = Some d"
  by (induction fs) auto

lemma filter_fresh:
  "p \<notin> fst ` set fs \<Longrightarrow> filter (\<lambda>f. fst f \<noteq> p) fs = fs"
  by (induction fs) auto

text \<open>A file that was just written can be read back and removed again.\<close>

lemma write_tempfile_result:
  assumes "write_tempfile d w = (p, w1)"
  shows "p = fresh_path (tmp_files w)" and "tmp_files w1 = tmp_files w @ [(p, d)]"
    and "calls w1 = calls w"
  using assms by (auto simp: write_tempfile_def Let_def)

lemma read_written:
  assumes "write_tempfile d w = (p, w1)"
  shows "read_file p w1 = Inr d"
proof -
  from write_tempfile_result(1) [OF assms] fresh_path_fresh [of "tmp_files w"]
  have "p \<notin> fst ` set (tmp_files w)" by simp
  then have "map_of (tmp_files w @ [(p, d)]) p = Some d" by (rule map_of_append_fresh)
  then show ?thesis
    by (simp add: read_file_def write_tempfile_result(2) [OF assms])
qed

lemma remove_written:
  assumes "write_tempfile d w = (p, w1)" and "tmp_files w2 = tmp_files w1"
  shows "tmp_files (cleanup (Some p) w2) = tmp_files w"
proof -
  from write_tempfile_result(1) [OF assms(1)] fresh_path_fresh [of "tmp_files w"]
  have "p \<notin> fst ` set (tmp_files w)" by simp
  then have "filter (\<lambda>f. fst f \<noteq> p) (tmp_files w) = tmp_files w" by (rule filter_fresh)
  then show ?thesis
    by (simp add: cleanup_def os_remove_def assms(2) write_tempfile_result(2) [OF assms(1)])
qed

lemma read_image_cases:
  "read_image env v w = (r, w1) \<Longrightarrow>
   (\<exists>e. r = Inl e \<and> w1 = w) \<or>
   (\<exists>d. r = Inr (fresh_path (tmp_files w), d) \<and>
        write_tempfile d w = (fresh_path (tmp_files w), w1))"
proof (cases v)
  case (JStr s)
  assume run: "read_image env v w = (r, w1)"
  show ?thesis
  proof (cases "image_payload s")
    case (Inl e)
    with run JStr show ?thesis by (auto simp: read_image_def)
  next
    case (Inr payload)
    show ?thesis
    proof (cases "b64decode env payload")
      case (Inl e)
      with run JStr Inr show ?thesis by (auto simp: read_image_def)
    next
      case decoded: (Inr d)
      obtain p w' where wr: "write_tempfile d w = (p, w')" by (cases "write_tempfile d w")
      then have p: "p = fresh_path (tmp_files w)" by (auto simp: write_tempfile_def Let_def)
      from read_written [OF wr] run JStr Inr decoded wr p show ?thesis
        by (auto simp: read_image_def)
    qed
  qed
qed (auto simp: read_image_def split: sum.splits bool.splits)

lemma call_openai_chat_files:
  "tmp_files (snd (call_openai_chat cfg env p t w)) = tmp_files w"
  by (auto simp: call_openai_chat_def log_call_def Let_def
      split: option.splits sum.splits)

text \<open>
  Without a Gemini key the handler leaves the temporary files as it found them: the
  file of the normalizer is removed on every path through the dispatcher.
\<close>

lemma analyze_tmp_files_without_gemini:
  assumes "\<not> key_set (GEMINI_API_KEY cfg)"
  shows "tmp_files (snd (analyze cfg env req w)) = tmp_files w"
proof (cases "unauthorized cfg req")
  case True
  then show ?thesis by (simp add: analyze_def)
next
  case False
  show ?thesis
  proof (cases "normalize env req w")
    case (Pair r w1)
    show ?thesis
    proof (cases r)
      case (Inl out)
      with Pair have "w1 = w"
        by (auto simp: normalize_def Let_def
            split: sum.splits if_splits json.splits prod.splits dest: read_image_cases)
      with Pair Inl False show ?thesis by (simp add: analyze_def)
    next
      case (Inr n)
      have sel: "tmp_files (snd (select_provider cfg env n w1)) = tmp_files w1"
        using assms call_openai_chat_files [of cfg env "SYSTEM_PROMPT cfg" "n_user_text n" w1]
        by (auto simp: select_provider_def split: prod.splits sum.splits)
      have after: "tmp_files (snd (dispatch cfg env n w1)) =
                   tmp_files (cleanup (n_temp_image_path n) (snd (select_provider cfg env n w1)))"
        by (auto simp: dispatch_def Let_def split: prod.splits sum.splits)
      from Pair Inr
      consider (no_image) "n_temp_image_path n = None" "w1 = w"
        | (image) p d where "n_temp_image_path n = Some p" "write_tempfile d w = (p, w1)"
        by (auto simp: normalize_def Let_def
            split: sum.splits if_splits json.splits prod.splits dest!: read_image_cases)
      then have "tmp_files (cleanup (n_temp_image_path n) (snd (select_provider cfg env n w1))) =
                 tmp_files w"
      proof cases
        case no_image
        with sel show ?thesis by (simp add: cleanup_def)
      next
        case image
        from remove_written [OF image(2) sel] image(1) show ?thesis by simp
      qed
      with after Pair Inr False show ?thesis by (simp add: analyze_def)
    qed
  qed
qed

text \<open>
  Claim C1 fails on the code. With a Gemini key and an image that decodes to at least
  one byte, \<^verbatim>\<open>call_gemini_api\<close> writes a second temporary file (line 49) whose
  \<^verbatim>\<open>finally\<close> clause is empty: the file is still on disk when the handler returns,
  after a successful call and after an upload that raises.
\<close>

theorem C1_gemini_upload_file_remains:
  "analyze gemini_config example_env
     (post None (JObj [(''image_base64'', JStr ''QQ=='')])) empty_world =
     (Response 200 (ok_envelope (JStr ''hello'') (JStr ''analysis'') ''gemini''),
      \<lparr>tmp_files = [(2, [0x41])],
       calls = [FilesUpload 2,
                GenerateContent ''gemini-2.5-pro'' [FilePart (UploadedFile ''files/abc'')]
                  (Some (GenerateContentConfig ''You are a tutor.''))]\<rparr>) \<and>
   analyze gemini_config
     (example_env\<lparr>files_upload := (\<lambda>name data. Inl (PyExc ''ClientError'' ''upload failed''))\<rparr>)
     (post None (JObj [(''image_base64'', JStr ''QQ=='')])) empty_world =
     (Response 500 (error_envelope_exc ''AI provider error'' (PyExc ''ClientError'' ''upload failed'')),
      \<lparr>tmp_files = [(2, [0x41])], calls = [FilesUpload 2]\<rparr>)"
  by code_simp

section \<open>Exceptions that leave the handler\<close>

text \<open>
  A body that is a dict whose \<^verbatim>\<open>mode\<close> is a string or absent never makes the handler
  raise: every path ends in a response with status 200, 400, 401 or 500.
\<close>

lemma analyze_typed_request_responds:
  assumes "get_json req = Inr (JObj d)"
    and "dict_get d ''mode'' (JStr ''auto'') = JStr m"
  shows "\<exists>s b. fst (analyze cfg env req w) = Response s b \<and> s \<in> {200, 400, 401, 500}"
proof (cases "unauthorized cfg req")
  case True
  then show ?thesis by (simp add: analyze_def)
next
  case False
  show ?thesis
  proof (cases "normalize env req w")
    case (Pair r w1)
    show ?thesis
    proof (cases r)
      case (Inl out)
      with Pair assms have "\<exists>b. out = Response 400 b"
        by (auto simp: normalize_def build_user_text_def Let_def
            split: sum.splits if_splits prod.splits)
      with Pair Inl False show ?thesis by (auto simp: analyze_def)
    next
      case (Inr n)
      with Pair False dispatch_outcome [of cfg env n w1] show ?thesis
        by (auto simp: analyze_def)
    qed
  qed
qed

text \<open>
  Claim C4 fails on the code. \<^verbatim>\<open>mode.upper()\<close> (line 121) and \<^verbatim>\<open>data.get\<close>
  (line 116) stand outside every \<^verbatim>\<open>try\<close>: a \<^verbatim>\<open>mode\<close> that is a number or
  \<^verbatim>\<open>null\<close>, and a body that is a non-empty list, make the handler raise
  \<^verbatim>\<open>AttributeError\<close> instead of answering with an error envelope.
\<close>

theorem C4_attribute_error_leaves_handler:
  "fst (analyze example_config example_env (post None (JObj [(''mode'', JInt 5)])) empty_world) =
     Raised (attribute_error (JInt 5) ''upper'') \<and>
   fst (analyze example_config example_env (post None (JObj [(''mode'', JNull)])) empty_world) =
     Raised (attribute_error JNull ''upper'') \<and>
   fst (analyze example_config example_env (post None (JArr [JInt 1])) empty_world) =
     Raised (attribute_error (JArr [JInt 1]) ''get'') \<and>
   exc_class (attribute_error (JInt 5) ''upper'') = ''AttributeError''"
  by code_simp

section \<open>The data-URL prefix\<close>

text \<open>The search splits the text around the separator it finds.\<close>

lemma find_sep_decomp: "find_sep sep s = Some (a, b) \<Longrightarrow> s = a @ sep @ b"
proof (induction s arbitrary: a)
  case Nil
  then show ?case by (simp split: if_splits)
next
  case (Cons c cs)
  show ?case
  proof (cases "take (length sep) (c # cs) = sep")
    case True
    with Cons.prems have "a = []" and "b = drop (length sep) (c # cs)" by simp_all
    with True show ?thesis by (metis append_Nil append_take_drop_id)
  next
    case False
    with Cons.prems obtain a' where "find_sep sep cs = Some (a', b)" and "a = c # a'"
      by (auto split: option.splits)
    with Cons.IH show ?thesis by simp
  qed
qed

lemma find_sep_complete: "s = a @ sep @ b \<Longrightarrow> find_sep sep s \<noteq> None"
proof (induction a arbitrary: s)
  case Nil
  then have here: "take (length sep) s = sep" by simp
  show ?case
  proof (cases s)
    case empty: Nil
    with here show ?thesis by simp
  next
    case (Cons c cs)
    with here show ?thesis by simp
  qed
next
  case (Cons c a)
  then have s: "s = c # (a @ sep @ b)" by simp
  from Cons.IH [of "a @ sep @ b"] have "find_sep sep (a @ sep @ b) \<noteq> None" by simp
  with s show ?case by (auto split: option.splits)
qed

lemma header_sep_nonempty: "header_sep \<noteq> []"
  by (simp add: header_sep_def)

text \<open>
  A marker that occurs once: the search finds it, and finds nothing in the rest.
\<close>

lemma find_sep_unique:
  assumes "s = a @ sep @ b"
    and "\<forall>a' b'. s = a' @ sep @ b' \<longrightarrow> a' = a"
    and "sep \<noteq> []"
  shows "find_sep sep s = Some (a, b)" and "find_sep sep b = None"
proof -
  from find_sep_complete [OF assms(1)] obtain a' b' where found: "find_sep sep s = Some (a', b')"
    by auto
  from find_sep_decomp [OF found] have s: "s = a' @ sep @ b'" .
  with assms(2) have "a' = a" by blast
  with s assms(1) have "b' = b" by simp
  with found \<open>a' = a\<close> show "find_sep sep s = Some (a, b)" by simp
  show "find_sep sep b = None"
  proof (rule ccontr)
    assume "find_sep sep b \<noteq> None"
    then obtain a2 b2 where "find_sep sep b = Some (a2, b2)" by auto
    from find_sep_decomp [OF this] assms(1) have "s = (a @ sep @ a2) @ sep @ b2" by simp
    with assms(2) have "a @ sep @ a2 = a" by blast
    with assms(3) show False by simp
  qed
qed

lemma split_nonempty_two:
  assumes "find_sep sep s = Some (a, b)" and "find_sep sep b = None" and "sep \<noteq> []"
  shows "split_nonempty sep s = [a, b]"
proof -
  from assms(2,3) have "split_nonempty sep b = [b]"
    by (simp add: split_nonempty.simps [of sep b])
  with assms(1,3) show ?thesis
    by (simp add: split_nonempty.simps [of sep s])
qed

text \<open>
  What the decoder receives in general: the piece between the first marker and the
  next one, or the rest of the text when there is no next one.
\<close>

lemma image_payload_first_piece:
  assumes "find_sep header_sep s = Some (a, r)"
  shows "image_payload s =
         Inr (case find_sep header_sep r of None \<Rightarrow> r | Some (piece, rest) \<Rightarrow> piece)"
proof -
  have parts: "split_nonempty header_sep s = a # split_nonempty header_sep r"
    using assms header_sep_nonempty by (simp add: split_nonempty.simps [of header_sep s])
  have second: "split_nonempty header_sep r =
      (case find_sep header_sep r of None \<Rightarrow> [r] | Some (piece, rest) \<Rightarrow> piece # split_nonempty header_sep rest)"
    using header_sep_nonempty by (simp add: split_nonempty.simps [of header_sep r])
  from assms have "contains header_sep s" by (simp add: contains_def)
  with parts second header_sep_nonempty show ?thesis
    by (auto simp: image_payload_def split_def index_def split: option.splits)
qed

text \<open>
  Claim C3, as amended. For an \<^verbatim>\<open>image_base64\<close> string in which the marker
  \<^verbatim>\<open>base64,\<close> occurs exactly once, the image step decodes exactly the text after
  the marker: it fails with the decoder's error on that text, or yields the decoder's
  bytes for that text (read back from the new temporary file).
\<close>

theorem C3_single_marker_decodes_rest:
  assumes "image_b64 = a @ header_sep @ b"
    and "\<forall>a' b'. image_b64 = a' @ header_sep @ b' \<longrightarrow> a' = a"
  shows "fst (read_image env (JStr image_b64) w) =
         (case b64decode env b of
            Inl e \<Rightarrow> Inl e
          | Inr binary \<Rightarrow> Inr (fresh_path (tmp_files w), binary))"
proof -
  note found = find_sep_unique [OF assms header_sep_nonempty]
  from image_payload_first_piece [OF found(1)] found(2)
  have payload: "image_payload image_b64 = Inr b" by simp
  show ?thesis
  proof (cases "b64decode env b")
    case (Inl e)
    with payload show ?thesis by (simp add: read_image_def)
  next
    case (Inr binary)
    obtain p w1 where wr: "write_tempfile binary w = (p, w1)"
      by (cases "write_tempfile binary w")
    from read_written [OF wr] write_tempfile_result(1) [OF wr] payload Inr wr
    show ?thesis by (simp add: read_image_def)
  qed
qed

text \<open>The positions at which a separator occurs decide whether it occurs once.\<close>

lemma occurrence_position:
  assumes "s = a @ sep @ b"
  shows "length a \<in> set (filter (\<lambda>i. take (length sep) (drop i s) = sep) [0..<Suc (length s)])"
    and "a = take (length a) s"
  using assms by auto

lemma single_position_unique:
  assumes "filter (\<lambda>i. take (length sep) (drop i s) = sep) [0..<Suc (length s)] = [k]"
    and "s = a @ sep @ b"
  shows "a = take k s"
proof -
  have "length a \<in> set [k]"
    using occurrence_position(1) [OF assms(2)] unfolding assms(1) .
  then have "length a = k" by simp
  with occurrence_position(2) [OF assms(2)] show ?thesis by simp
qed

theorem C3_single_marker_decodes_rest_witness:
  "fst (read_image example_env (JStr ''data:image/png;base64,QUJD'') empty_world) =
     Inr (1, [0x41, 0x42, 0x43])"
proof -
  let ?s = "''data:image/png;base64,QUJD''"
  have decomp: "?s = ''data:image/png;'' @ header_sep @ ''QUJD''"
    by (simp add: header_sep_def)
  have positions:
    "filter (\<lambda>i. take (length header_sep) (drop i ?s) = header_sep) [0..<Suc (length ?s)] = [15]"
    by code_simp
  have once: "\<forall>a' b'. ?s = a' @ header_sep @ b' \<longrightarrow> a' = ''data:image/png;''"
  proof (intro allI impI)
    fix a' b'
    assume "?s = a' @ header_sep @ b'"
    from single_position_unique [OF positions this] show "a' = ''data:image/png;''" by simp
  qed
  have decoded: "b64decode example_env ''QUJD'' = Inr [0x41, 0x42, 0x43]"
    by code_simp
  have fresh: "fresh_path (tmp_files empty_world) = 1"
    by code_simp
  from C3_single_marker_decodes_rest [OF decomp once, of example_env empty_world]
  show ?thesis by (simp add: decoded fresh)
qed

text \<open>
  The claim as written decodes everything after the marker. When the marker occurs a
  second time, \<^verbatim>\<open>split(header_sep)[1]\<close> is only the piece between the two markers:
  the bytes are those of \<^verbatim>\<open>QUJD\<close>, not those of the text after the first marker, and
  not those of the text after the last one.
\<close>

theorem C3_second_marker_counterexample:
  "''data:image/png;base64,QUJDbase64,QQ=='' =
     ''data:image/png;'' @ header_sep @ ''QUJDbase64,QQ=='' \<and>
   fst (read_image example_env (JStr ''data:image/png;base64,QUJDbase64,QQ=='') empty_world) =
     Inr (1, [0x41, 0x42, 0x43]) \<and>
   b64decode example_env ''QUJDbase64,QQ=='' =
     Inr [0x41, 0x42, 0x43, 0x6D, 0xAB, 0x1E, 0xEB, 0x84, 0x10] \<and>
   ''data:image/png;base64,QUJDbase64,QQ=='' =
     ''data:image/png;base64,QUJD'' @ header_sep @ ''QQ=='' \<and>
   b64decode example_env ''QQ=='' = Inr [0x41]"
  by code_simp

section \<open>Bad requests\<close>

lemma normalize_parse_error:
  "get_json req = Inl e \<Longrightarrow> normalize env req w = (Inl (Raised e), w)"
  by (simp add: normalize_def)

lemma normalize_falsy:
  "get_json req = Inr data \<Longrightarrow> \<not> truthy data \<Longrightarrow>
   normalize env req w = (Inl (Response 400 (error_envelope ''invalid json payload'')), w)"
  by (simp add: normalize_def)

lemma normalize_not_dict:
  "get_json req = Inr data \<Longrightarrow> truthy data \<Longrightarrow> \<forall>d. data \<noteq> JObj d \<Longrightarrow>
   normalize env req w = (Inl (Raised (attribute_error data ''get'')), w)"
  by (cases data) (simp_all add: normalize_def)

text \<open>The normalizer on a dict that is not empty, step by step.\<close>

lemma normalize_dict:
  assumes "get_json req = Inr (JObj d)" and "d \<noteq> []"
  shows "normalize env req w =
     (case build_user_text env (dict_get d ''mode'' (JStr ''auto''))
             (dict_get d ''message_text'' (JStr [])) of
        Inl e \<Rightarrow> (Inl (Raised e), w)
      | Inr ut \<Rightarrow>
          if truthy (dict_get d ''image_base64'' JNull)
          then (case read_image env (dict_get d ''image_base64'' JNull) w of
                  (Inl e, w1) \<Rightarrow>
                    (Inl (Response 400 (error_envelope_exc ''bad image base64'' e)), w1)
                | (Inr (path, data), w1) \<Rightarrow>
                    (Inr \<lparr>n_mode = dict_get d ''mode'' (JStr ''auto''), n_user_text = ut,
                          n_temp_image_path = Some path, n_image_bytes = Some data\<rparr>, w1))
          else (Inr \<lparr>n_mode = dict_get d ''mode'' (JStr ''auto''), n_user_text = ut,
                     n_temp_image_path = None, n_image_bytes = None\<rparr>, w))"
  using assms by (simp add: normalize_def Let_def)

lemma build_user_text_ok:
  "(\<exists>ut. build_user_text env mv text = Inr ut) \<longleftrightarrow> (\<exists>m. mv = JStr m)"
  by (cases mv) (auto simp: build_user_text_def)

lemma analyze_past_normalize:
  assumes "\<not> unauthorized cfg req" and "normalize env req w = (Inr n, w1)"
  shows "analyze cfg env req w = dispatch cfg env n w1"
  using assms by (simp add: analyze_def)

lemma analyze_early:
  assumes "\<not> unauthorized cfg req" and "normalize env req w = (Inl out, w1)"
  shows "analyze cfg env req w = (out, w1)"
  using assms by (simp add: analyze_def)

lemma dispatch_not_400: "fst (dispatch cfg env n w) \<noteq> Response 400 body"
  using dispatch_outcome [of cfg env n w] by auto

text \<open>
  Claim C5, as amended. Take a request that passes the gate and whose body parses as
  JSON, either to a value that is false in Python (\<^verbatim>\<open>null\<close>, \<^verbatim>\<open>false\<close>, zero, the empty
  string, list or object) or to an object whose \<^verbatim>\<open>mode\<close> is a string or absent. The
  handler answers 400 exactly when the body is false in Python or its
  \<^verbatim>\<open>image_base64\<close> is true in Python and fails in the image step. In the first case the
  response is the envelope with the message \<^verbatim>\<open>invalid json payload\<close>; in the second it is
  the envelope with the message \<^verbatim>\<open>bad image base64\<close> and the error of the image step.
  A body that is true in Python, a non-empty object, is never answered with the
  envelope \<^verbatim>\<open>invalid json payload\<close>.
\<close>

theorem C5_bad_request_iff:
  assumes "\<not> unauthorized cfg req" and "get_json req = Inr data"
    and "truthy data \<longrightarrow> (\<exists>d m. data = JObj d \<and> dict_get d ''mode'' (JStr ''auto'') = JStr m)"
  shows
    "((\<exists>body. fst (analyze cfg env req w) = Response 400 body) \<longleftrightarrow>
        (\<exists>d e. data = JObj d \<and> truthy (dict_get d ''image_base64'' JNull) \<and>
           fst (read_image env (dict_get d ''image_base64'' JNull) w) = Inl e)
        \<or> \<not> truthy data) \<and>
     (\<not> truthy data \<longrightarrow>
        analyze cfg env req w = (Response 400 (error_envelope ''invalid json payload''), w)) \<and>
     (\<forall>d e. data = JObj d \<and> truthy (dict_get d ''image_base64'' JNull) \<and>
        fst (read_image env (dict_get d ''image_base64'' JNull) w) = Inl e \<longrightarrow>
        fst (analyze cfg env req w) =
          Response 400 (error_envelope_exc ''bad image base64'' e)) \<and>
     (truthy data \<longrightarrow>
        fst (analyze cfg env req w) \<noteq> Response 400 (error_envelope ''invalid json payload''))"
proof (cases "truthy data")
  case False
  from analyze_early [OF assms(1) normalize_falsy [OF assms(2) False]]
  have "analyze cfg env req w = (Response 400 (error_envelope ''invalid json payload''), w)" .
  moreover from False have "\<forall>d. data = JObj d \<longrightarrow> \<not> truthy (dict_get d ''image_base64'' JNull)"
    by (auto simp: dict_get_def)
  ultimately show ?thesis using False by auto
next
  case True
  with assms(3) obtain d m where d: "data = JObj d"
    and m: "dict_get d ''mode'' (JStr ''auto'') = JStr m" by blast
  from True d have ne: "d \<noteq> []" by simp
  from assms(2) d have parsed: "get_json req = Inr (JObj d)" by simp
  note nd = normalize_dict [OF parsed ne, of env w]
  let ?image = "dict_get d ''image_base64'' JNull"
  from m build_user_text_ok [of env "dict_get d ''mode'' (JStr ''auto'')"
      "dict_get d ''message_text'' (JStr [])"]
  obtain ut where ut: "build_user_text env (dict_get d ''mode'' (JStr ''auto''))
      (dict_get d ''message_text'' (JStr [])) = Inr ut" by auto
  have differ: "error_envelope_exc ''bad image base64'' e \<noteq> error_envelope ''invalid json payload''"
    for e
    by (simp add: error_envelope_exc_def error_envelope_def)
  show ?thesis
  proof (cases "truthy ?image")
    case no_image: False
    with nd ut obtain n where "normalize env req w = (Inr n, w)" by simp
    from analyze_past_normalize [OF assms(1) this] dispatch_not_400 [of cfg env n w]
    have "\<forall>body. fst (analyze cfg env req w) \<noteq> Response 400 body" by simp
    with True d no_image show ?thesis by auto
  next
    case image: True
    obtain r w1 where ri: "read_image env ?image w = (r, w1)"
      by (cases "read_image env ?image w")
    show ?thesis
    proof (cases r)
      case (Inl e)
      with nd ut image ri have "normalize env req w =
          (Inl (Response 400 (error_envelope_exc ''bad image base64'' e)), w1)"
        by simp
      from analyze_early [OF assms(1) this]
      have "fst (analyze cfg env req w) = Response 400 (error_envelope_exc ''bad image base64'' e)"
        by simp
      with True d image ri Inl differ [of e] show ?thesis by auto
    next
      case (Inr pd)
      with nd ut image ri obtain n where "normalize env req w = (Inr n, w1)"
        by (cases pd) simp
      from analyze_past_normalize [OF assms(1) this] dispatch_not_400 [of cfg env n w1]
      have "\<forall>body. fst (analyze cfg env req w) \<noteq> Response 400 body" by simp
      with True d ri Inr show ?thesis by auto
    qed
  qed
qed

text \<open>
  An image of one base64 character is answered with \<^verbatim>\<open>bad image base64\<close> and the
  decoder's error; a body with a message only is not answered with 400.
\<close>

theorem C5_bad_request_iff_witness:
  "fst (analyze example_config example_env
       (post None (JObj [(''image_base64'', JStr ''Q'')])) empty_world) =
     Response 400 (error_envelope_exc ''bad image base64''
       (PyExc ''Error'' (''Invalid base64-encoded string: number of data characters (1) '' @
                         ''cannot be 1 more than a multiple of 4''))) \<and>
   \<not> (\<exists>body. fst (analyze example_config example_env (post None hello_body) empty_world) =
       Response 400 body)"
proof -
  let ?d = "[(''image_base64'', JStr ''Q'')]"
  let ?req = "post None (JObj ?d)"
  let ?e = "PyExc ''Error'' (''Invalid base64-encoded string: number of data characters (1) '' @
                            ''cannot be 1 more than a multiple of 4'')"
  have gate: "\<not> unauthorized example_config ?req"
    by (simp add: unauthorized_def example_config_def)
  have parsed: "get_json ?req = Inr (JObj ?d)"
    by (simp add: post_def)
  have typed: "truthy (JObj ?d) \<longrightarrow>
      (\<exists>d m. JObj ?d = JObj d \<and> dict_get d ''mode'' (JStr ''auto'') = JStr m)"
    by (simp add: dict_get_def)
  have img: "JObj ?d = JObj ?d \<and> truthy (dict_get ?d ''image_base64'' JNull) \<and>
      fst (read_image example_env (dict_get ?d ''image_base64'' JNull) empty_world) = Inl ?e"
    by code_simp
  from C5_bad_request_iff [OF gate parsed typed, of example_env empty_world,
      THEN conjunct2, THEN conjunct2, THEN conjunct1, THEN spec, THEN spec, THEN mp, OF img]
  have bad: "fst (analyze example_config example_env ?req empty_world) =
      Response 400 (error_envelope_exc ''bad image base64'' ?e)" .
  have gate2: "\<not> unauthorized example_config (post None hello_body)"
    by (simp add: unauthorized_def example_config_def)
  have parsed2: "get_json (post None hello_body) = Inr hello_body"
    by (simp add: post_def)
  have typed2: "truthy hello_body \<longrightarrow>
      (\<exists>d m. hello_body = JObj d \<and> dict_get d ''mode'' (JStr ''auto'') = JStr m)"
    by (simp add: hello_body_def dict_get_def)
  from C5_bad_request_iff [OF gate2 parsed2 typed2, of example_env empty_world, THEN conjunct1]
  have good: "\<not> (\<exists>body. fst (analyze example_config example_env (post None hello_body) empty_world) =
       Response 400 body)"
    by (simp add: hello_body_def dict_get_def)
  from bad good show ?thesis by (rule conjI)
qed

text \<open>
  The claim as written never rejects a body that is valid JSON as an invalid payload.
  The empty object \<^verbatim>\<open>{}\<close> is valid JSON, and so are \<^verbatim>\<open>[]\<close> and \<^verbatim>\<open>0\<close>; the check
  \<^verbatim>\<open>if not data\<close> answers each of them with 400 and \<^verbatim>\<open>invalid json payload\<close>.
\<close>

theorem C5_empty_object_counterexample:
  "analyze example_config example_env (post None (JObj [])) empty_world =
     (Response 400 (error_envelope ''invalid json payload''), empty_world) \<and>
   analyze example_config example_env (post None (JArr [])) empty_world =
     (Response 400 (error_envelope ''invalid json payload''), empty_world) \<and>
   analyze example_config example_env (post None (JInt 0)) empty_world =
     (Response 400 (error_envelope ''invalid json payload''), empty_world)"
  by code_simp

section \<open>The field user_id\<close>

text \<open>The body without its \<^verbatim>\<open>user_id\<close> entry.\<close>

lemma map_of_without_key:
  "k \<noteq> u \<Longrightarrow> map_of (filter (\<lambda>kv. fst kv \<noteq> u) d) k = map_of d k"
  by (induction d) auto

lemma dict_get_without_key:
  "k \<noteq> u \<Longrightarrow> dict_get (filter (\<lambda>kv. fst kv \<noteq> u) d) k dflt = dict_get d k dflt"
  by (simp add: dict_get_def map_of_without_key)

lemma dict_get_same_rest:
  assumes "filter (\<lambda>kv. fst kv \<noteq> u) d1 = filter (\<lambda>kv. fst kv \<noteq> u) d2" and "k \<noteq> u"
  shows "dict_get d1 k dflt = dict_get d2 k dflt"
  using dict_get_without_key [OF assms(2), of d1 dflt] dict_get_without_key [OF assms(2), of d2 dflt]
    assms(1) by simp

text \<open>
  Claim C9, as amended. Two requests with the same header whose bodies are non-empty
  objects that agree on every key but \<^verbatim>\<open>user_id\<close> get the same response and leave
  the same files and outside calls behind, under the same configuration and
  environment.
\<close>

theorem C9_user_id_inert:
  assumes "x_backend_secret req1 = x_backend_secret req2"
    and "get_json req1 = Inr (JObj d1)" and "get_json req2 = Inr (JObj d2)"
    and "d1 \<noteq> []" and "d2 \<noteq> []"
    and "filter (\<lambda>kv. fst kv \<noteq> ''user_id'') d1 = filter (\<lambda>kv. fst kv \<noteq> ''user_id'') d2"
  shows "analyze cfg env req1 w = analyze cfg env req2 w"
proof -
  have gate: "unauthorized cfg req1 = unauthorized cfg req2"
    using assms(1) by (simp add: unauthorized_def)
  have mode: "dict_get d1 ''mode'' (JStr ''auto'') = dict_get d2 ''mode'' (JStr ''auto'')"
    by (rule dict_get_same_rest [OF assms(6)]) simp
  have msg: "dict_get d1 ''message_text'' (JStr []) = dict_get d2 ''message_text'' (JStr [])"
    by (rule dict_get_same_rest [OF assms(6)]) simp
  have image: "dict_get d1 ''image_base64'' JNull = dict_get d2 ''image_base64'' JNull"
    by (rule dict_get_same_rest [OF assms(6)]) simp
  have "normalize env req1 w = normalize env req2 w"
    unfolding normalize_dict [OF assms(2) assms(4)] normalize_dict [OF assms(3) assms(5)]
      mode msg image ..
  with gate show ?thesis by (simp add: analyze_def)
qed

theorem C9_user_id_inert_witness:
  "analyze openai_config example_env
     (post None (JObj [(''user_id'', JStr ''u1''), (''message_text'', JStr ''hi'')])) empty_world =
   analyze openai_config example_env (post None hello_body) empty_world"
  using C9_user_id_inert [of "post None (JObj [(''user_id'', JStr ''u1''), (''message_text'', JStr ''hi'')])"
      "post None hello_body" "[(''user_id'', JStr ''u1''), (''message_text'', JStr ''hi'')]"
      "[(''message_text'', JStr ''hi'')]" openai_config example_env empty_world]
  by (simp add: post_def hello_body_def)

text \<open>
  The claim as written covers a body whose only field is \<^verbatim>\<open>user_id\<close>. Without the
  field the body is the empty object, which \<^verbatim>\<open>if not data\<close> answers with 400; with
  the field the request reaches the provider.
\<close>

theorem C9_only_user_id_counterexample:
  "filter (\<lambda>kv. fst kv \<noteq> ''user_id'') [(''user_id'', JStr ''u1'')] =
     filter (\<lambda>kv. fst kv \<noteq> ''user_id'') [] \<and>
   fst (analyze openai_config example_env (post None (JObj [(''user_id'', JStr ''u1'')])) empty_world) =
     Response 200 (ok_envelope (JStr ''hello'') (JStr ''analysis'') ''openai'') \<and>
   fst (analyze openai_config example_env (post None (JObj [])) empty_world) =
     Response 400 (error_envelope ''invalid json payload'')"
  by code_simp

section \<open>Provider selection\<close>

lemma normalize_calls:
  assumes "normalize env req w = (r, w1)"
  shows "calls w1 = calls w"
proof -
  have ri: "calls w' = calls w" if "read_image env v w = (r', w')" for v r' w'
    using read_image_cases [OF that] by (auto dest: write_tempfile_result(3))
  from assms show ?thesis
    by (auto simp: normalize_def Let_def
        split: sum.splits if_splits json.splits prod.splits dest: ri)
qed

lemma cleanup_calls: "calls (cleanup p w) = calls w"
  by (simp add: cleanup_def os_remove_def split: option.splits)

lemma upload_image_calls:
  assumes "upload_image env img w = (r, w1)"
  shows "\<exists>cs. calls w1 = calls w @ cs \<and> list_all is_gemini_call cs"
proof (cases "\<exists>data. img = Some data \<and> data \<noteq> []")
  case False
  with assms have "w1 = w"
    by (auto simp: upload_image_def split: option.splits if_splits)
  then show ?thesis by simp
next
  case True
  then obtain data where img: "img = Some data" "data \<noteq> []" by blast
  obtain name w' where wr: "write_tempfile data w = (name, w')"
    by (cases "write_tempfile data w")
  with assms img have "w1 = log_call (FilesUpload name) w'"
    by (auto simp: upload_image_def Let_def split: sum.splits)
  with write_tempfile_result(3) [OF wr] have "calls w1 = calls w @ [FilesUpload name]"
    by (simp add: log_call_def)
  then show ?thesis by simp
qed

lemma call_gemini_api_calls:
  assumes "call_gemini_api cfg env t img m w = (r, w1)"
  shows "\<exists>cs. calls w1 = calls w @ cs \<and> list_all is_gemini_call cs"
proof -
  obtain ur wu where up: "upload_image env img w = (ur, wu)"
    by (cases "upload_image env img w")
  from upload_image_calls [OF up] obtain cs
    where cs: "calls wu = calls w @ cs" "list_all is_gemini_call cs" by blast
  from assms up
  have "calls w1 = calls w \<or> calls w1 = calls wu \<or>
        (\<exists>c. is_gemini_call c \<and> calls w1 = calls wu @ [c])"
    by (auto simp: call_gemini_api_def Let_def log_call_def
        split: option.splits if_splits sum.splits)
  then show ?thesis
  proof (elim disjE exE conjE)
    assume "calls w1 = calls w"
    then show ?thesis by simp
  next
    assume "calls w1 = calls wu"
    with cs show ?thesis by simp
  next
    fix c
    assume "is_gemini_call c" "calls w1 = calls wu @ [c]"
    with cs have "calls w1 = calls w @ (cs @ [c])" "list_all is_gemini_call (cs @ [c])"
      by simp_all
    then show ?thesis by blast
  qed
qed

lemma call_openai_chat_calls:
  assumes "call_openai_chat cfg env p t w = (r, w1)"
  shows "\<exists>cs. calls w1 = calls w @ cs \<and> list_all (\<lambda>c. \<not> is_gemini_call c) cs"
proof -
  from assms have "w1 = w \<or> (\<exists>u h b k. w1 = log_call (RequestsPost u h b k) w)"
    by (auto simp: call_openai_chat_def Let_def split: option.splits if_splits sum.splits)
  then show ?thesis
  proof (elim disjE exE)
    assume "w1 = w"
    then show ?thesis by simp
  next
    fix u h b k
    assume "w1 = log_call (RequestsPost u h b k) w"
    then have "calls w1 = calls w @ [RequestsPost u h b k]" by (simp add: log_call_def)
    then show ?thesis by simp
  qed
qed

lemma dispatch_gemini:
  assumes "key_set (GEMINI_API_KEY cfg)"
  shows "dispatch cfg env n w =
     (case call_gemini_api cfg env (n_user_text n) (n_image_bytes n) (n_mode n) w of
        (Inl e, w2) \<Rightarrow>
          (Response 500 (error_envelope_exc ''AI provider error'' e),
           cleanup (n_temp_image_path n) w2)
      | (Inr ai_resp, w2) \<Rightarrow> (reply ai_resp ''gemini'', cleanup (n_temp_image_path n) w2))"
  using assms by (simp add: dispatch_def select_provider_def split: prod.splits sum.splits)

lemma dispatch_openai:
  assumes "\<not> key_set (GEMINI_API_KEY cfg)" and "key_set (OPENAI_API_KEY cfg)"
  shows "dispatch cfg env n w =
     (case call_openai_chat cfg env (SYSTEM_PROMPT cfg) (n_user_text n) w of
        (Inl e, w2) \<Rightarrow>
          (Response 500 (error_envelope_exc ''AI provider error'' e),
           cleanup (n_temp_image_path n) w2)
      | (Inr ai_resp, w2) \<Rightarrow> (reply ai_resp ''openai'', cleanup (n_temp_image_path n) w2))"
  using assms by (simp add: dispatch_def select_provider_def split: prod.splits sum.splits)

lemma dispatch_none:
  assumes "\<not> key_set (GEMINI_API_KEY cfg)" and "\<not> key_set (OPENAI_API_KEY cfg)"
  shows "dispatch cfg env n w =
     (Response 500 (error_envelope
        ''No AI provider configured. Set GEMINI_API_KEY or OPENAI_API_KEY on the server.''),
      cleanup (n_temp_image_path n) w)"
  using assms by (simp add: dispatch_def select_provider_def)

text \<open>
  Claim C6. For a request that passes the gate and the normalizer, the provider is
  chosen in a fixed order. With a Gemini key the outcome is the one of
  \<^verbatim>\<open>call_gemini_api\<close>: a 500 with the provider's error, or a 200 whose
  \<^verbatim>\<open>meta.used_provider\<close> is \<^verbatim>\<open>gemini\<close>; every outside call of the request is a call of
  the Gemini SDK, also when an OpenAI key is set. Without a Gemini key and with an
  OpenAI key the same holds for \<^verbatim>\<open>call_openai_chat\<close> and \<^verbatim>\<open>openai\<close>, and no call is a
  Gemini call. With neither key the response is a 500 that says no provider is
  configured, and no outside call is made.
\<close>

theorem C6_provider_selection:
  assumes "\<not> unauthorized cfg req" and "normalize env req w = (Inr n, w1)"
  shows
    "(key_set (GEMINI_API_KEY cfg) \<longrightarrow>
        (case call_gemini_api cfg env (n_user_text n) (n_image_bytes n) (n_mode n) w1 of
           (Inl e, w2) \<Rightarrow>
             analyze cfg env req w =
               (Response 500 (error_envelope_exc ''AI provider error'' e),
                cleanup (n_temp_image_path n) w2)
         | (Inr ai_resp, w2) \<Rightarrow>
             (\<exists>reply_text. analyze cfg env req w =
               (Response 200 (ok_envelope reply_text (JStr ''analysis'') ''gemini''),
                cleanup (n_temp_image_path n) w2))) \<and>
        (\<exists>cs. calls (snd (analyze cfg env req w)) = calls w @ cs \<and>
              list_all is_gemini_call cs)) \<and>
     (\<not> key_set (GEMINI_API_KEY cfg) \<and> key_set (OPENAI_API_KEY cfg) \<longrightarrow>
        (case call_openai_chat cfg env (SYSTEM_PROMPT cfg) (n_user_text n) w1 of
           (Inl e, w2) \<Rightarrow>
             analyze cfg env req w =
               (Response 500 (error_envelope_exc ''AI provider error'' e),
                cleanup (n_temp_image_path n) w2)
         | (Inr ai_resp, w2) \<Rightarrow>
             (\<exists>reply_text. analyze cfg env req w =
               (Response 200 (ok_envelope reply_text (JStr ''analysis'') ''openai''),
                cleanup (n_temp_image_path n) w2))) \<and>
        (\<exists>cs. calls (snd (analyze cfg env req w)) = calls w @ cs \<and>
              list_all (\<lambda>c. \<not> is_gemini_call c) cs)) \<and>
     (\<not> key_set (GEMINI_API_KEY cfg) \<and> \<not> key_set (OPENAI_API_KEY cfg) \<longrightarrow>
        analyze cfg env req w =
          (Response 500 (error_envelope
             ''No AI provider configured. Set GEMINI_API_KEY or OPENAI_API_KEY on the server.''),
           cleanup (n_temp_image_path n) w1) \<and>
        calls (snd (analyze cfg env req w)) = calls w)"
proof (intro conjI impI)
  note go = analyze_past_normalize [OF assms]
  note same = normalize_calls [OF assms(2)]
  {
    assume gemini: "key_set (GEMINI_API_KEY cfg)"
    obtain r w2 where run:
      "call_gemini_api cfg env (n_user_text n) (n_image_bytes n) (n_mode n) w1 = (r, w2)"
      by (cases "call_gemini_api cfg env (n_user_text n) (n_image_bytes n) (n_mode n) w1")
    show "case call_gemini_api cfg env (n_user_text n) (n_image_bytes n) (n_mode n) w1 of
           (Inl e, w2) \<Rightarrow>
             analyze cfg env req w =
               (Response 500 (error_envelope_exc ''AI provider error'' e),
                cleanup (n_temp_image_path n) w2)
         | (Inr ai_resp, w2) \<Rightarrow>
             (\<exists>reply_text. analyze cfg env req w =
               (Response 200 (ok_envelope reply_text (JStr ''analysis'') ''gemini''),
                cleanup (n_temp_image_path n) w2))"
    proof (cases r)
      case (Inl e)
      with run go dispatch_gemini [OF gemini, of env n w1] show ?thesis by simp
    next
      case (Inr ai)
      from call_gemini_api_result [OF run [unfolded Inr]] obtain rt raw
        where "ai = [(''reply_text'', PJson rt), (''raw'', PResponse raw),
                     (''reply_type'', PJson (JStr ''analysis''))]" by blast
      with Inr run go dispatch_gemini [OF gemini, of env n w1] show ?thesis
        by (auto simp: reply_of_result)
    qed
    from call_gemini_api_calls [OF run] obtain cs
      where "calls w2 = calls w1 @ cs" "list_all is_gemini_call cs" by blast
    moreover have "calls (snd (analyze cfg env req w)) = calls w2"
      using run go dispatch_gemini [OF gemini, of env n w1]
      by (cases r) (simp_all add: cleanup_calls)
    ultimately show "\<exists>cs. calls (snd (analyze cfg env req w)) = calls w @ cs \<and>
        list_all is_gemini_call cs"
      using same by auto
  }
  {
    assume "\<not> key_set (GEMINI_API_KEY cfg) \<and> key_set (OPENAI_API_KEY cfg)"
    then have no_gemini: "\<not> key_set (GEMINI_API_KEY cfg)" and openai: "key_set (OPENAI_API_KEY cfg)"
      by simp_all
    obtain r w2 where run:
      "call_openai_chat cfg env (SYSTEM_PROMPT cfg) (n_user_text n) w1 = (r, w2)"
      by (cases "call_openai_chat cfg env (SYSTEM_PROMPT cfg) (n_user_text n) w1")
    show "case call_openai_chat cfg env (SYSTEM_PROMPT cfg) (n_user_text n) w1 of
           (Inl e, w2) \<Rightarrow>
             analyze cfg env req w =
               (Response 500 (error_envelope_exc ''AI provider error'' e),
                cleanup (n_temp_image_path n) w2)
         | (Inr ai_resp, w2) \<Rightarrow>
             (\<exists>reply_text. analyze cfg env req w =
               (Response 200 (ok_envelope reply_text (JStr ''analysis'') ''openai''),
                cleanup (n_temp_image_path n) w2))"
    proof (cases r)
      case (Inl e)
      with run go dispatch_openai [OF no_gemini openai, of env n w1] show ?thesis by simp
    next
      case (Inr ai)
      from call_openai_chat_result [OF run [unfolded Inr]] obtain rt raw
        where "ai = [(''reply_text'', PJson rt), (''raw'', PJson raw),
                     (''reply_type'', PJson (JStr ''analysis''))]" by blast
      with Inr run go dispatch_openai [OF no_gemini openai, of env n w1] show ?thesis
        by (auto simp: reply_of_result)
    qed
    from call_openai_chat_calls [OF run] obtain cs
      where "calls w2 = calls w1 @ cs" "list_all (\<lambda>c. \<not> is_gemini_call c) cs" by blast
    moreover have "calls (snd (analyze cfg env req w)) = calls w2"
      using run go dispatch_openai [OF no_gemini openai, of env n w1]
      by (cases r) (simp_all add: cleanup_calls)
    ultimately show "\<exists>cs. calls (snd (analyze cfg env req w)) = calls w @ cs \<and>
        list_all (\<lambda>c. \<not> is_gemini_call c) cs"
      using same by auto
  }
  {
    assume "\<not> key_set (GEMINI_API_KEY cfg) \<and> \<not> key_set (OPENAI_API_KEY cfg)"
    then have none: "\<not> key_set (GEMINI_API_KEY cfg)" "\<not> key_set (OPENAI_API_KEY cfg)"
      by simp_all
    from go dispatch_none [OF none, of env n w1]
    show "analyze cfg env req w =
          (Response 500 (error_envelope
             ''No AI provider configured. Set GEMINI_API_KEY or OPENAI_API_KEY on the server.''),
           cleanup (n_temp_image_path n) w1)"
      by simp
    then show "calls (snd (analyze cfg env req w)) = calls w"
      using same by (simp add: cleanup_calls)
  }
qed

theorem C6_provider_selection_witness:
  "(\<exists>reply_text w2. analyze both_config example_env (post None hello_body) empty_world =
      (Response 200 (ok_envelope reply_text (JStr ''analysis'') ''gemini''), w2)) \<and>
   (\<exists>reply_text w2. analyze openai_config example_env (post None hello_body) empty_world =
      (Response 200 (ok_envelope reply_text (JStr ''analysis'') ''openai''), w2)) \<and>
   fst (analyze example_config example_env (post None hello_body) empty_world) =
     Response 500 (error_envelope
       ''No AI provider configured. Set GEMINI_API_KEY or OPENAI_API_KEY on the server.'')"
proof -
  let ?req = "post None hello_body"
  let ?n = "\<lparr>n_mode = JStr ''auto'', n_user_text = JStr ''hi'',
             n_temp_image_path = None, n_image_bytes = None\<rparr>"
  have run: "normalize example_env ?req empty_world = (Inr ?n, empty_world)"
    by code_simp
  have gate_b: "\<not> unauthorized both_config ?req" by code_simp
  have gate_o: "\<not> unauthorized openai_config ?req" by code_simp
  have gate_n: "\<not> unauthorized example_config ?req" by code_simp
  have keys_b: "key_set (GEMINI_API_KEY both_config)" by code_simp
  have keys_o: "\<not> key_set (GEMINI_API_KEY openai_config) \<and> key_set (OPENAI_API_KEY openai_config)"
    by code_simp
  have keys_n: "\<not> key_set (GEMINI_API_KEY example_config) \<and> \<not> key_set (OPENAI_API_KEY example_config)"
    by code_simp
  have g: "\<exists>ai w2. call_gemini_api both_config example_env (n_user_text ?n) (n_image_bytes ?n)
             (n_mode ?n) empty_world = (Inr ai, w2)"
    by (simp add: call_gemini_api_def both_config_def gemini_config_def example_config_def
        example_env_def upload_image_def text_contents_def)
  have o: "\<exists>ai w2. call_openai_chat openai_config example_env (SYSTEM_PROMPT openai_config)
             (n_user_text ?n) empty_world = (Inr ai, w2)"
    by (simp add: call_openai_chat_def openai_config_def example_config_def
        example_env_def raise_for_status_def)
  from g obtain ai_g w_g where run_g:
    "call_gemini_api both_config example_env (n_user_text ?n) (n_image_bytes ?n)
       (n_mode ?n) empty_world = (Inr ai_g, w_g)"
    by blast
  note with_gemini =
    C6_provider_selection [OF gate_b run, THEN conjunct1, THEN mp, OF keys_b, THEN conjunct1]
  have first: "\<exists>reply_text w2. analyze both_config example_env ?req empty_world =
      (Response 200 (ok_envelope reply_text (JStr ''analysis'') ''gemini''), w2)"
    using with_gemini unfolding run_g by auto
  from o obtain ai_o w_o where run_o:
    "call_openai_chat openai_config example_env (SYSTEM_PROMPT openai_config)
       (n_user_text ?n) empty_world = (Inr ai_o, w_o)"
    by blast
  note with_openai =
    C6_provider_selection [OF gate_o run, THEN conjunct2, THEN conjunct1, THEN mp, OF keys_o,
      THEN conjunct1]
  have second: "\<exists>reply_text w2. analyze openai_config example_env ?req empty_world =
      (Response 200 (ok_envelope reply_text (JStr ''analysis'') ''openai''), w2)"
    using with_openai unfolding run_o by auto
  from C6_provider_selection [OF gate_n run] keys_n
  have third: "fst (analyze example_config example_env ?req empty_world) =
     Response 500 (error_envelope
       ''No AI provider configured. Set GEMINI_API_KEY or OPENAI_API_KEY on the server.'')"
    by simp
  from first second third show ?thesis by blast
qed

section \<open>The OpenAI path: status and reply text\<close>

text \<open>The shape under which the subscripts of line 102 all succeed.\<close>

lemma message_content_shape:
  "message_content j = Some c \<longleftrightarrow>
   (\<exists>top choice rest msg. j = JObj top \<and>
      map_of top ''choices'' = Some (JArr (JObj choice # rest)) \<and>
      map_of choice ''message'' = Some (JObj msg) \<and>
      map_of msg ''content'' = Some c)"
proof
  assume found: "message_content j = Some c"
  then obtain choices where c1: "getitem_key j ''choices'' = Some choices"
    by (auto simp: message_content_def split: option.splits)
  then obtain top where top: "j = JObj top" "map_of top ''choices'' = Some choices"
    by (cases j) auto
  from found c1 obtain choice0 where c2: "getitem_0 choices = Some choice0"
    by (auto simp: message_content_def split: option.splits)
  from found c1 c2 obtain message where c3: "getitem_key choice0 ''message'' = Some message"
    by (auto simp: message_content_def split: option.splits)
  then obtain choice where choice: "choice0 = JObj choice" "map_of choice ''message'' = Some message"
    by (cases choice0) auto
  from c2 choice(1) obtain rest where arr: "choices = JArr (JObj choice # rest)"
    by (cases choices rule: getitem_0.cases) auto
  from found c1 c2 c3 have c4: "getitem_key message ''content'' = Some c"
    by (simp add: message_content_def)
  then obtain msg where msg: "message = JObj msg" "map_of msg ''content'' = Some c"
    by (cases message) auto
  from top arr choice msg
  show "\<exists>top choice rest msg. j = JObj top \<and>
      map_of top ''choices'' = Some (JArr (JObj choice # rest)) \<and>
      map_of choice ''message'' = Some (JObj msg) \<and>
      map_of msg ''content'' = Some c"
    by blast
next
  assume "\<exists>top choice rest msg. j = JObj top \<and>
      map_of top ''choices'' = Some (JArr (JObj choice # rest)) \<and>
      map_of choice ''message'' = Some (JObj msg) \<and>
      map_of msg ''content'' = Some c"
  then show "message_content j = Some c"
    by (auto simp: message_content_def)
qed

lemma raise_for_status_iff:
  "(\<exists>e. raise_for_status resp = Some e) \<longleftrightarrow> 400 \<le> status_code resp \<and> status_code resp < 600"
  by (auto simp: raise_for_status_def)

lemma raise_for_status_class:
  "raise_for_status resp = Some e \<Longrightarrow> exc_class e = ''HTTPError''"
  by (auto simp: raise_for_status_def split: if_splits)

text \<open>
  Claim C8, as amended. On the OpenAI path, a response of the chat endpoint with a
  status from 400 to 599 makes \<^verbatim>\<open>raise_for_status\<close> raise \<^verbatim>\<open>HTTPError\<close>, and the handler
  answers 500 with that error in the envelope. For every other status, when the body
  parses as JSON, the handler answers 200 and the reply text is
  \<^verbatim>\<open>choices[0].message.content\<close> when the body has that shape, and the serialisation
  of the whole body otherwise; the extraction never raises. A body that does not parse
  gives a 500 with the parser's error.
\<close>

theorem C8_openai_status_and_reply:
  assumes "\<not> unauthorized cfg req" and "normalize env req w = (Inr n, w1)"
    and "\<not> key_set (GEMINI_API_KEY cfg)"
    and "OPENAI_API_KEY cfg = Some key" and "key \<noteq> []"
    and "requests_post env ''https://api.openai.com/v1/chat/completions''
           [(''Authorization'', ''Bearer '' @ key), (''Content-Type'', ''application/json'')]
           (openai_body (SYSTEM_PROMPT cfg) (n_user_text n)) 60 = Inr resp"
  shows
    "(400 \<le> status_code resp \<and> status_code resp < 600 \<longrightarrow>
        (\<exists>e. raise_for_status resp = Some e \<and> exc_class e = ''HTTPError'' \<and>
             fst (analyze cfg env req w) =
               Response 500 (error_envelope_exc ''AI provider error'' e))) \<and>
     (\<forall>j. \<not> (400 \<le> status_code resp \<and> status_code resp < 600) \<and> json_result resp = Inr j \<longrightarrow>
        fst (analyze cfg env req w) =
          Response 200
            (ok_envelope (case message_content j of
                            Some c \<Rightarrow> c
                          | None \<Rightarrow> JStr (json_dumps env j))
               (JStr ''analysis'') ''openai'')) \<and>
     (\<forall>e. \<not> (400 \<le> status_code resp \<and> status_code resp < 600) \<and> json_result resp = Inl e \<longrightarrow>
        fst (analyze cfg env req w) =
          Response 500 (error_envelope_exc ''AI provider error'' e)) \<and>
     (\<forall>j c. message_content j = Some c \<longleftrightarrow>
        (\<exists>top choice rest msg. j = JObj top \<and>
           map_of top ''choices'' = Some (JArr (JObj choice # rest)) \<and>
           map_of choice ''message'' = Some (JObj msg) \<and>
           map_of msg ''content'' = Some c))"
proof -
  from assms(4,5) have openai: "key_set (OPENAI_API_KEY cfg)" by simp
  have go: "fst (analyze cfg env req w) =
      (case call_openai_chat cfg env (SYSTEM_PROMPT cfg) (n_user_text n) w1 of
         (Inl e, w2) \<Rightarrow> Response 500 (error_envelope_exc ''AI provider error'' e)
       | (Inr ai_resp, w2) \<Rightarrow> reply ai_resp ''openai'')"
    using analyze_past_normalize [OF assms(1,2)] dispatch_openai [OF assms(3) openai, of env n w1]
    by (simp split: prod.splits sum.splits)
  have chat: "fst (call_openai_chat cfg env (SYSTEM_PROMPT cfg) (n_user_text n) w1) =
      (case raise_for_status resp of
         Some e \<Rightarrow> Inl e
       | None \<Rightarrow>
           (case json_result resp of
              Inl e \<Rightarrow> Inl e
            | Inr j \<Rightarrow>
                Inr [(''reply_text'', PJson (case message_content j of
                                               Some c \<Rightarrow> c
                                             | None \<Rightarrow> JStr (json_dumps env j))),
                     (''raw'', PJson j),
                     (''reply_type'', PJson (JStr ''analysis''))]))"
    using assms(4,5,6)
    by (simp add: call_openai_chat_def Let_def split: option.splits sum.splits)
  have err: "\<exists>e. raise_for_status resp = Some e \<and> exc_class e = ''HTTPError'' \<and>
             fst (analyze cfg env req w) = Response 500 (error_envelope_exc ''AI provider error'' e)"
    if "400 \<le> status_code resp \<and> status_code resp < 600"
  proof -
    from that raise_for_status_iff [of resp] obtain e where e: "raise_for_status resp = Some e"
      by blast
    with chat have "fst (call_openai_chat cfg env (SYSTEM_PROMPT cfg) (n_user_text n) w1) = Inl e"
      by simp
    with go have "fst (analyze cfg env req w) = Response 500 (error_envelope_exc ''AI provider error'' e)"
      by (simp split: prod.splits)
    with e raise_for_status_class [OF e] show ?thesis by blast
  qed
  have ok: "fst (analyze cfg env req w) =
          Response 200
            (ok_envelope (case message_content j of
                            Some c \<Rightarrow> c
                          | None \<Rightarrow> JStr (json_dumps env j))
               (JStr ''analysis'') ''openai'')"
    if "\<not> (400 \<le> status_code resp \<and> status_code resp < 600) \<and> json_result resp = Inr j" for j
  proof -
    from that raise_for_status_iff [of resp] have "raise_for_status resp = None" by auto
    with chat that have "fst (call_openai_chat cfg env (SYSTEM_PROMPT cfg) (n_user_text n) w1) =
        Inr [(''reply_text'', PJson (case message_content j of
                                       Some c \<Rightarrow> c
                                     | None \<Rightarrow> JStr (json_dumps env j))),
             (''raw'', PJson j),
             (''reply_type'', PJson (JStr ''analysis''))]"
      by simp
    with go show ?thesis by (simp add: reply_of_result split: prod.splits)
  qed
  have parse: "fst (analyze cfg env req w) = Response 500 (error_envelope_exc ''AI provider error'' e)"
    if "\<not> (400 \<le> status_code resp \<and> status_code resp < 600) \<and> json_result resp = Inl e" for e
  proof -
    from that raise_for_status_iff [of resp] have "raise_for_status resp = None" by auto
    with chat that have "fst (call_openai_chat cfg env (SYSTEM_PROMPT cfg) (n_user_text n) w1) = Inl e"
      by simp
    with go show ?thesis by (simp split: prod.splits)
  qed
  from err ok parse message_content_shape show ?thesis by blast
qed

theorem C8_openai_status_and_reply_witness:
  "fst (analyze openai_config (status_env 404 ''Not Found'') (post None hello_body) empty_world) =
     Response 500 (error_envelope_exc ''AI provider error''
       (PyExc ''HTTPError''
          ''404 Client Error: Not Found for url: https://api.openai.com/v1/chat/completions'')) \<and>
   fst (analyze openai_config (status_env 200 ''OK'') (post None hello_body) empty_world) =
     Response 200 (ok_envelope (JStr ''hello'') (JStr ''analysis'') ''openai'')"
proof -
  let ?req = "post None hello_body"
  let ?n = "\<lparr>n_mode = JStr ''auto'', n_user_text = JStr ''hi'',
             n_temp_image_path = None, n_image_bytes = None\<rparr>"
  let ?resp = "\<lambda>code phrase. \<lparr>status_code = code, reason = phrase,
      url = ''https://api.openai.com/v1/chat/completions'',
      json_result = Inr example_completion\<rparr>"
  have gate: "\<not> unauthorized openai_config ?req" by code_simp
  have no_gemini: "\<not> key_set (GEMINI_API_KEY openai_config)" by code_simp
  have key: "OPENAI_API_KEY openai_config = Some ''sk-test''" by code_simp
  have ne: "''sk-test'' \<noteq> []" by simp
  have run: "normalize (status_env code phrase) ?req empty_world = (Inr ?n, empty_world)"
    for code phrase
    by (simp add: normalize_def post_def hello_body_def dict_get_def build_user_text_def)
  have posted: "requests_post (status_env code phrase) ''https://api.openai.com/v1/chat/completions''
           [(''Authorization'', ''Bearer '' @ ''sk-test''), (''Content-Type'', ''application/json'')]
           (openai_body (SYSTEM_PROMPT openai_config) (n_user_text ?n)) 60 = Inr (?resp code phrase)"
    for code phrase
    by (simp add: status_env_def)
  note at_404 = C8_openai_status_and_reply [OF gate run [of 404 "''Not Found''"] no_gemini key ne
      posted [of 404 "''Not Found''"]]
  note at_200 = C8_openai_status_and_reply [OF gate run [of 200 "''OK''"] no_gemini key ne
      posted [of 200 "''OK''"]]
  have raised: "raise_for_status (?resp 404 ''Not Found'') =
      Some (PyExc ''HTTPError''
          ''404 Client Error: Not Found for url: https://api.openai.com/v1/chat/completions'')"
    by code_simp
  have content: "message_content example_completion = Some (JStr ''hello'')"
    by code_simp
  from at_404 [THEN conjunct1] raised
  have first: "fst (analyze openai_config (status_env 404 ''Not Found'') ?req empty_world) =
     Response 500 (error_envelope_exc ''AI provider error''
       (PyExc ''HTTPError''
          ''404 Client Error: Not Found for url: https://api.openai.com/v1/chat/completions''))"
    by simp
  from at_200 [THEN conjunct2, THEN conjunct1, THEN spec, of example_completion] content
  have second: "fst (analyze openai_config (status_env 200 ''OK'') ?req empty_world) =
     Response 200 (ok_envelope (JStr ''hello'') (JStr ''analysis'') ''openai'')"
    by simp
  from first second show ?thesis by (rule conjI)
qed

text \<open>
  The claim as written turns every status outside 200 to 299 into a provider error.
  \<^verbatim>\<open>raise_for_status\<close> raises for 400 to 599 only: a response with status 300 and a
  well-formed completion as body is answered with 200 and the completion's text.
\<close>

theorem C8_status_300_counterexample:
  "raise_for_status \<lparr>status_code = 300, reason = ''Multiple Choices'',
      url = ''https://api.openai.com/v1/chat/completions'',
      json_result = Inr example_completion\<rparr> = None \<and>
   fst (analyze openai_config (status_env 300 ''Multiple Choices'') (post None hello_body)
          empty_world) =
     Response 200 (ok_envelope (JStr ''hello'') (JStr ''analysis'') ''openai'')"
  by code_simp

section \<open>The text for the provider\<close>

lemma format_value_str: "format_value env (JStr t) = t"
  by (simp add: format_value_def)

lemma dropWhile_keeps: "x \<in> set s \<Longrightarrow> \<not> P x \<Longrightarrow> x \<in> set (dropWhile P s)"
  by (induction s) auto

text \<open>A text with a character that is not white space is not emptied by \<^const>\<open>strip\<close>.\<close>

lemma strip_nonempty:
  assumes "x \<in> set s" and "\<not> is_space x"
  shows "strip s \<noteq> []"
proof -
  from dropWhile_keeps [of x s is_space, OF assms]
  have "x \<in> set (rev (dropWhile is_space s))" by simp
  from dropWhile_keeps [of x "rev (dropWhile is_space s)" is_space, OF this assms(2)]
  have "dropWhile is_space (rev (dropWhile is_space s)) \<noteq> []"
    by (metis empty_iff empty_set)
  then show ?thesis by (simp add: strip_def)
qed

lemma strip_mode_text: "strip (''[MODE: '' @ rest) \<noteq> []"
proof (rule strip_nonempty)
  show "CHR ''['' \<in> set (''[MODE: '' @ rest)" by simp
  show "\<not> is_space CHR ''[''" by (simp add: is_space_def)
qed

text \<open>The one outside call of the OpenAI path.\<close>

lemma call_openai_chat_log:
  assumes "OPENAI_API_KEY cfg = Some key" and "key \<noteq> []"
  shows "calls (snd (call_openai_chat cfg env system_prompt user_text w)) =
     calls w @ [RequestsPost ''https://api.openai.com/v1/chat/completions''
                  [(''Authorization'', ''Bearer '' @ key),
                   (''Content-Type'', ''application/json'')]
                  (openai_body system_prompt user_text) 60]"
  using assms
  by (simp add: call_openai_chat_def Let_def log_call_def split: sum.splits option.splits)

text \<open>The generate call of the Gemini path, once the SDK, the client and the upload are there.\<close>

lemma call_gemini_api_log:
  assumes "GEMINI_API_KEY cfg = Some key" and "key \<noteq> []"
    and "import_genai env = None" and "new_client env key = None"
    and "upload_image env img w = (Inr files, w2)"
  shows "calls (snd (call_gemini_api cfg env (JStr t) img m w)) =
     calls w2 @ [GenerateContent
                   (if DEFAULT_MODEL cfg \<noteq> [] then DEFAULT_MODEL cfg else ''gemini-2.5-pro'')
                   (files @ (if strip t = [] then [] else [TextPart t]))
                   (case new_config env (SYSTEM_PROMPT cfg) of
                      Some e \<Rightarrow> None
                    | None \<Rightarrow> Some (GenerateContentConfig (SYSTEM_PROMPT cfg)))]"
proof -
  have texts: "text_contents (JStr t) = Inr (if strip t = [] then [] else [TextPart t])"
    by (auto simp: text_contents_def strip_def)
  show ?thesis
    using assms
    by (simp add: call_gemini_api_def texts Let_def log_call_def split: sum.splits)
qed

text \<open>
  Claim C7, as amended. Take a request that passes the gate and the normalizer. If
  \<^verbatim>\<open>mode\<close> is present and is not the string \<^verbatim>\<open>auto\<close>, then it is a string and the text
  is \<^verbatim>\<open>[MODE: \<close>, the mode in upper case, \<^verbatim>\<open>]\<close>, two newlines and the message text (an
  f-string renders a message text that is a string as it is). If \<^verbatim>\<open>mode\<close> is absent or
  \<^verbatim>\<open>auto\<close>, the text is \<^verbatim>\<open>message_text\<close> unchanged, the empty string when the field is
  absent. On the OpenAI path the request posted to the chat endpoint carries this text
  as the content of its user message. On the Gemini path, once the SDK and the client
  are there and the upload has returned, the content list of the generate call ends
  with this text, except that a text which is empty or white space only is left out
  of the list; a text built from a mode is never left out.
\<close>

theorem C7_text_for_provider:
  assumes "\<not> unauthorized cfg req" and "get_json req = Inr (JObj d)"
    and "normalize env req w = (Inr n, w1)"
  shows
    "(\<forall>mv. map_of d ''mode'' = Some mv \<and> mv \<noteq> JStr ''auto'' \<longrightarrow>
        (\<exists>m. mv = JStr m \<and>
             n_user_text n =
               JStr (''[MODE: '' @ str_upper env m @ '']'' @ [CHR 0x0A, CHR 0x0A] @
                     format_value env (dict_get d ''message_text'' (JStr []))))) \<and>
     (\<forall>t. format_value env (JStr t) = t) \<and>
     (map_of d ''mode'' = None \<or> map_of d ''mode'' = Some (JStr ''auto'') \<longrightarrow>
        n_user_text n = dict_get d ''message_text'' (JStr [])) \<and>
     (map_of d ''message_text'' = None \<longrightarrow> dict_get d ''message_text'' (JStr []) = JStr []) \<and>
     (\<forall>key. \<not> key_set (GEMINI_API_KEY cfg) \<and> OPENAI_API_KEY cfg = Some key \<and> key \<noteq> [] \<longrightarrow>
        calls (snd (analyze cfg env req w)) =
          calls w @
          [RequestsPost ''https://api.openai.com/v1/chat/completions''
             [(''Authorization'', ''Bearer '' @ key), (''Content-Type'', ''application/json'')]
             (JObj [(''model'', JStr ''gpt-4o''),
                    (''messages'',
                       JArr [JObj [(''role'', JStr ''system''),
                                   (''content'', JStr (SYSTEM_PROMPT cfg))],
                             JObj [(''role'', JStr ''user''),
                                   (''content'', n_user_text n)]]),
                    (''temperature'', JFloat (2 / 10)),
                    (''max_tokens'', JInt 800)])
             60]) \<and>
     (\<forall>key t files w2.
        GEMINI_API_KEY cfg = Some key \<and> key \<noteq> [] \<and> import_genai env = None \<and>
        new_client env key = None \<and> n_user_text n = JStr t \<and>
        upload_image env (n_image_bytes n) w1 = (Inr files, w2) \<longrightarrow>
        calls (snd (analyze cfg env req w)) =
          calls w2 @
          [GenerateContent
             (if DEFAULT_MODEL cfg \<noteq> [] then DEFAULT_MODEL cfg else ''gemini-2.5-pro'')
             (files @ (if strip t = [] then [] else [TextPart t]))
             (case new_config env (SYSTEM_PROMPT cfg) of
                Some e \<Rightarrow> None
              | None \<Rightarrow> Some (GenerateContentConfig (SYSTEM_PROMPT cfg)))]) \<and>
     (\<forall>mv t. map_of d ''mode'' = Some mv \<and> mv \<noteq> JStr ''auto'' \<and> n_user_text n = JStr t \<longrightarrow>
        strip t \<noteq> [])"
proof -
  from assms(2,3) have ne: "d \<noteq> []"
    by (auto simp: normalize_def)
  note nd = normalize_dict [OF assms(2) ne, of env w]
  note go = analyze_past_normalize [OF assms(1,3)]
  note same = normalize_calls [OF assms(3)]
  let ?mode = "dict_get d ''mode'' (JStr ''auto'')"
  let ?msg = "dict_get d ''message_text'' (JStr [])"
  from nd assms(3) have ut: "build_user_text env ?mode ?msg = Inr (n_user_text n)"
    by (auto split: sum.splits if_splits prod.splits)
  have set_mode: "\<exists>m. mv = JStr m \<and>
        n_user_text n = JStr (''[MODE: '' @ str_upper env m @ '']'' @ [CHR 0x0A, CHR 0x0A] @
                              format_value env ?msg)"
    if "map_of d ''mode'' = Some mv \<and> mv \<noteq> JStr ''auto''" for mv
  proof -
    from that have "?mode = mv" by (simp add: dict_get_def)
    with ut that show ?thesis
      by (cases mv) (auto simp: build_user_text_def)
  qed
  have auto_mode: "n_user_text n = ?msg"
    if "map_of d ''mode'' = None \<or> map_of d ''mode'' = Some (JStr ''auto'')"
  proof -
    from that have "?mode = JStr ''auto''" by (auto simp: dict_get_def)
    with ut show ?thesis by (simp add: build_user_text_def)
  qed
  have dflt: "map_of d ''message_text'' = None \<longrightarrow> ?msg = JStr []"
    by (simp add: dict_get_def)
  have posted: "calls (snd (analyze cfg env req w)) =
          calls w @
          [RequestsPost ''https://api.openai.com/v1/chat/completions''
             [(''Authorization'', ''Bearer '' @ key), (''Content-Type'', ''application/json'')]
             (JObj [(''model'', JStr ''gpt-4o''),
                    (''messages'',
                       JArr [JObj [(''role'', JStr ''system''),
                                   (''content'', JStr (SYSTEM_PROMPT cfg))],
                             JObj [(''role'', JStr ''user''),
                                   (''content'', n_user_text n)]]),
                    (''temperature'', JFloat (2 / 10)),
                    (''max_tokens'', JInt 800)])
             60]"
    if "\<not> key_set (GEMINI_API_KEY cfg) \<and> OPENAI_API_KEY cfg = Some key \<and> key \<noteq> []" for key
  proof -
    from that have no_gemini: "\<not> key_set (GEMINI_API_KEY cfg)"
      and key: "OPENAI_API_KEY cfg = Some key" "key \<noteq> []" by simp_all
    from key have openai: "key_set (OPENAI_API_KEY cfg)" by simp
    have "calls (snd (analyze cfg env req w)) =
          calls (snd (call_openai_chat cfg env (SYSTEM_PROMPT cfg) (n_user_text n) w1))"
      using go dispatch_openai [OF no_gemini openai, of env n w1]
      by (simp add: cleanup_calls split: prod.splits sum.splits)
    with call_openai_chat_log [OF key, of env "SYSTEM_PROMPT cfg" "n_user_text n" w1] same
    show ?thesis by (simp add: openai_body_def)
  qed
  have generated: "calls (snd (analyze cfg env req w)) =
          calls w2 @
          [GenerateContent
             (if DEFAULT_MODEL cfg \<noteq> [] then DEFAULT_MODEL cfg else ''gemini-2.5-pro'')
             (files @ (if strip t = [] then [] else [TextPart t]))
             (case new_config env (SYSTEM_PROMPT cfg) of
                Some e \<Rightarrow> None
              | None \<Rightarrow> Some (GenerateContentConfig (SYSTEM_PROMPT cfg)))]"
    if "GEMINI_API_KEY cfg = Some key \<and> key \<noteq> [] \<and> import_genai env = None \<and>
        new_client env key = None \<and> n_user_text n = JStr t \<and>
        upload_image env (n_image_bytes n) w1 = (Inr files, w2)" for key t files w2
  proof -
    from that have key: "GEMINI_API_KEY cfg = Some key" "key \<noteq> []"
      and sdk: "import_genai env = None" "new_client env key = None"
      and t: "n_user_text n = JStr t"
      and up: "upload_image env (n_image_bytes n) w1 = (Inr files, w2)" by simp_all
    from key have gemini: "key_set (GEMINI_API_KEY cfg)" by simp
    have "calls (snd (analyze cfg env req w)) =
          calls (snd (call_gemini_api cfg env (n_user_text n) (n_image_bytes n) (n_mode n) w1))"
      using go dispatch_gemini [OF gemini, of env n w1]
      by (simp add: cleanup_calls split: prod.splits sum.splits)
    with call_gemini_api_log [OF key sdk up, of t "n_mode n"] t
    show ?thesis by simp
  qed
  have kept: "strip t \<noteq> []"
    if "map_of d ''mode'' = Some mv \<and> mv \<noteq> JStr ''auto'' \<and> n_user_text n = JStr t" for mv t
  proof -
    from that set_mode [of mv] obtain rest where "t = ''[MODE: '' @ rest" by auto
    with strip_mode_text [of rest] show ?thesis by simp
  qed
  from set_mode auto_mode dflt posted generated kept format_value_str show ?thesis
    by blast
qed
text \<open>
  The request with mode \<^verbatim>\<open>summary\<close>: the marked text is in the user message posted to
  the chat endpoint, and it is the text item of the Gemini generate call.
\<close>

theorem C7_text_for_provider_witness:
  "calls (snd (analyze openai_config example_env summary_request empty_world)) =
     [RequestsPost ''https://api.openai.com/v1/chat/completions''
        [(''Authorization'', ''Bearer sk-test''), (''Content-Type'', ''application/json'')]
        (JObj [(''model'', JStr ''gpt-4o''),
               (''messages'',
                  JArr [JObj [(''role'', JStr ''system''),
                              (''content'', JStr ''You are a tutor.'')],
                        JObj [(''role'', JStr ''user''),
                              (''content'',
                               JStr (''[MODE: SUMMARY]'' @ [CHR 0x0A, CHR 0x0A] @
                                     ''Summarize the Niger Delta conflict''))]]),
               (''temperature'', JFloat (2 / 10)),
               (''max_tokens'', JInt 800)])
        60] \<and>
   calls (snd (analyze gemini_config example_env summary_request empty_world)) =
     [GenerateContent ''gemini-2.5-pro''
        [TextPart (''[MODE: SUMMARY]'' @ [CHR 0x0A, CHR 0x0A] @
                   ''Summarize the Niger Delta conflict'')]
        (Some (GenerateContentConfig ''You are a tutor.''))]"
proof -
  let ?d = "[(''message_text'', JStr ''Summarize the Niger Delta conflict''),
             (''mode'', JStr ''summary'')]"
  let ?t = "''[MODE: SUMMARY]'' @ [CHR 0x0A, CHR 0x0A] @ ''Summarize the Niger Delta conflict''"
  let ?n = "\<lparr>n_mode = JStr ''summary'', n_user_text = JStr ?t,
             n_temp_image_path = None, n_image_bytes = None\<rparr>"
  have parsed: "get_json summary_request = Inr (JObj ?d)"
    by (simp add: summary_request_def post_def)
  have run: "normalize example_env summary_request empty_world = (Inr ?n, empty_world)"
    by code_simp
  have gate_o: "\<not> unauthorized openai_config summary_request" by code_simp
  have gate_g: "\<not> unauthorized gemini_config summary_request" by code_simp
  have keys_o: "\<not> key_set (GEMINI_API_KEY openai_config) \<and>
      OPENAI_API_KEY openai_config = Some ''sk-test'' \<and> ''sk-test'' \<noteq> []"
    by code_simp
  have keys_g: "GEMINI_API_KEY gemini_config = Some ''g-test'' \<and> ''g-test'' \<noteq> [] \<and>
      import_genai example_env = None \<and> new_client example_env ''g-test'' = None \<and>
      n_user_text ?n = JStr ?t \<and>
      upload_image example_env (n_image_bytes ?n) empty_world = (Inr [], empty_world)"
    by code_simp
  have kept: "strip ?t \<noteq> []" by code_simp
  have prompt: "SYSTEM_PROMPT openai_config = ''You are a tutor.''" by code_simp
  have model: "DEFAULT_MODEL gemini_config = ''gemini-2.5-pro''"
    "SYSTEM_PROMPT gemini_config = ''You are a tutor.''"
    "new_config example_env ''You are a tutor.'' = None"
    "calls empty_world = []"
    by code_simp+
  note openai = C7_text_for_provider [OF gate_o parsed run,
      THEN conjunct2, THEN conjunct2, THEN conjunct2, THEN conjunct2, THEN conjunct1,
      THEN spec, THEN mp, OF keys_o]
  note gemini = C7_text_for_provider [OF gate_g parsed run,
      THEN conjunct2, THEN conjunct2, THEN conjunct2, THEN conjunct2, THEN conjunct2,
      THEN conjunct1, THEN spec, THEN spec, THEN spec, THEN spec, THEN mp, OF keys_g]
  from openai have first:
    "calls (snd (analyze openai_config example_env summary_request empty_world)) =
     [RequestsPost ''https://api.openai.com/v1/chat/completions''
        [(''Authorization'', ''Bearer sk-test''), (''Content-Type'', ''application/json'')]
        (JObj [(''model'', JStr ''gpt-4o''),
               (''messages'',
                  JArr [JObj [(''role'', JStr ''system''),
                              (''content'', JStr ''You are a tutor.'')],
                        JObj [(''role'', JStr ''user''),
                              (''content'', JStr ?t)]]),
               (''temperature'', JFloat (2 / 10)),
               (''max_tokens'', JInt 800)])
        60]"
    by (simp add: prompt model(4))
  from gemini kept have second:
    "calls (snd (analyze gemini_config example_env summary_request empty_world)) =
     [GenerateContent ''gemini-2.5-pro'' [TextPart ?t]
        (Some (GenerateContentConfig ''You are a tutor.''))]"
    by (simp add: model)
  from first second show ?thesis by (rule conjI)
qed

text \<open>
  The claim as written passes \<^verbatim>\<open>message_text\<close> unchanged to the provider whenever
  \<^verbatim>\<open>mode\<close> is absent. With a Gemini key and the message text of one blank, the
  condition \<^verbatim>\<open>payload_text.strip()\<close> of line 58 fails: the generate call is made with an
  empty content list, and the text is not passed.
\<close>

theorem C7_blank_text_counterexample:
  "map_of [(''message_text'', JStr '' '')] ''mode'' = None \<and>
   dict_get [(''message_text'', JStr '' '')] ''message_text'' (JStr []) = JStr '' '' \<and>
   analyze gemini_config example_env (post None (JObj [(''message_text'', JStr '' '')]))
     empty_world =
     (Response 200 (ok_envelope (JStr ''hello'') (JStr ''analysis'') ''gemini''),
      \<lparr>tmp_files = [],
       calls = [GenerateContent ''gemini-2.5-pro'' []
                  (Some (GenerateContentConfig ''You are a tutor.''))]\<rparr>)"
  by code_simp

end
